theory Spec2Isabelle
  imports Complex_Main "HOL-Library.Monad_Syntax"
begin

section \<open>JavaScript values\<close>

text \<open>
  The scoring engine is TypeScript. Its numbers are modelled as follows: component scores,
  group scores and table entries are \<open>int\<close>; angles, coordinates, confidences, weights
  and multipliers are \<open>real\<close> (the decimal literals \<open>0.1\<close>, \<open>1.1\<close>, \<open>1.3\<close>, ... stand for
  the rationals they denote, and the rounding of IEEE doubles is not modelled), but for
  \<open>calculateElbowAngle\<close>: whether its angle is NaN depends on the rounding, and it is
  computed in the arithmetic of doubles of section \<open>Doubles\<close>.
  A value that may be \<open>undefined\<close> or \<open>null\<close> is an \<open>option\<close>.
  A function whose parameters are named like fields of the score records (\<open>neck\<close>,
  \<open>wrist\<close>, \<open>scoreA\<close>, ...) stands before those records, so the order of the source files
  is not kept.
\<close>

text \<open>
  What a table read can do besides yielding a number: \<open>t[i][j]\<close> throws a TypeError when
  \<open>t[i]\<close> is \<open>undefined\<close>, and yields \<open>undefined\<close> when only the entry is missing.
\<close>

datatype failure = TypeError | UndefinedEntry

text \<open>An array read \<open>xs[i]\<close>: \<open>undefined\<close> outside \<open>0 .. length - 1\<close>.\<close>

definition js_nth :: "'a list \<Rightarrow> int \<Rightarrow> 'a option" where
  "js_nth xs i = (if 0 \<le> i \<and> i < int (length xs) then Some (xs ! nat i) else None)"

text \<open>\<open>t[i][j]\<close>, without optional chaining.\<close>

definition js_index2 :: "'a list list \<Rightarrow> int \<Rightarrow> int \<Rightarrow> failure + 'a" where
  "js_index2 t i j =
     (case js_nth t i of
        None \<Rightarrow> Inl TypeError
      | Some row \<Rightarrow> (case js_nth row j of None \<Rightarrow> Inl UndefinedEntry | Some v \<Rightarrow> Inr v))"

text \<open>\<open>t[i]?.[j]\<close>: \<open>undefined\<close> when either read misses.\<close>

definition js_opt_index2 :: "'a list list \<Rightarrow> int \<Rightarrow> int \<Rightarrow> 'a option" where
  "js_opt_index2 t i j = (case js_nth t i of None \<Rightarrow> None | Some row \<Rightarrow> js_nth row j)"

text \<open>\<open>v || d\<close> on a number that may be \<open>undefined\<close>: \<open>undefined\<close> and \<open>0\<close> are falsy.\<close>

definition js_or :: "'a::zero option \<Rightarrow> 'a \<Rightarrow> 'a" where
  "js_or v d = (case v of None \<Rightarrow> d | Some n \<Rightarrow> if n = 0 then d else n)"

text \<open>\<open>Math.round\<close> rounds a half towards plus infinity.\<close>

definition js_round :: "real \<Rightarrow> int" where
  "js_round v = \<lfloor>v + 1 / 2\<rfloor>"

text \<open>\<open>Math.atan2(y, x)\<close> on reals (the signed zeros of IEEE are one zero here).\<close>

definition atan2 :: "real \<Rightarrow> real \<Rightarrow> real" where
  "atan2 dy dx =
     (if 0 < dx then arctan (dy / dx)
      else if dx < 0 then (if 0 \<le> dy then arctan (dy / dx) + pi else arctan (dy / dx) - pi)
      else if 0 < dy then pi / 2
      else if dy < 0 then - (pi / 2)
      else 0)"


section \<open>Doubles\<close>

text \<open>
  An IEEE 754 double is a finite number, given by the real it denotes, an infinity or NaN.
  The two zeros are one number here. \<open>calculateElbowAngle\<close>, the only function below that
  is computed on doubles, cannot tell them apart: the sign of a zero shows in the sign of a
  quotient by it, an infinity, and \<open>Math.acos\<close> is NaN at both infinities.
\<close>

datatype double = Number real | PosInf | NegInf | NaN

text \<open>The nearest integer, the even one where two are nearest.\<close>

definition round_even :: "real \<Rightarrow> int" where
  "round_even r =
     (let n = \<lfloor>r\<rfloor>
      in if r - of_int n < 1 / 2 then n
         else if 1 / 2 < r - of_int n then n + 1
         else if even n then n else n + 1)"

text \<open>
  The distance between the doubles next to \<open>x\<close>: \<open>2 ^ (e - 52)\<close> where
  \<open>2 ^ e \<le> |x| < 2 ^ (e + 1)\<close>, and \<open>2 ^ - 1074\<close> below \<open>2 ^ - 1022\<close>, among the subnormal
  doubles.
\<close>

definition ulp :: "real \<Rightarrow> real" where
  "ulp x = 2 powr of_int (max \<lfloor>log 2 \<bar>x\<bar>\<rfloor> (- 1022) - 52)"

text \<open>
  Rounding to the nearest double, to the one with an even last digit where two are nearest.
  What rounds to \<open>2 ^ 1024\<close> or further is an infinity.
\<close>

definition nearest_double :: "real \<Rightarrow> double" where
  "nearest_double x =
     (if x = 0 then Number 0
      else let y = of_int (round_even (x / ulp x)) * ulp x
           in if 2 ^ 1024 \<le> y then PosInf
              else if y \<le> - (2 ^ 1024) then NegInf
              else Number y)"

text \<open>The infinity with the sign of \<open>s\<close>, and the sign of a double (0 for NaN).\<close>

definition infinity :: "real \<Rightarrow> double" where
  "infinity s = (if 0 \<le> s then PosInf else NegInf)"

fun sign_of :: "double \<Rightarrow> real" where
  "sign_of (Number x) = sgn x"
| "sign_of PosInf = 1"
| "sign_of NegInf = - 1"
| "sign_of NaN = 0"

text \<open>
  The operations \<open>+\<close>, \<open>-\<close>, \<open>*\<close>, \<open>/\<close> and \<open>Math.sqrt\<close>: on finite numbers the exact result,
  rounded; NaN where an operand is NaN, for the difference of equal infinities, for
  \<open>0 * Infinity\<close>, \<open>0 / 0\<close>, a quotient of infinities and the root of a negative number. A
  quotient by zero has the sign of the dividend, the zero having none.
\<close>

fun add64 :: "double \<Rightarrow> double \<Rightarrow> double" where
  "add64 NaN b = NaN"
| "add64 a NaN = NaN"
| "add64 (Number x) (Number y) = nearest_double (x + y)"
| "add64 PosInf NegInf = NaN"
| "add64 NegInf PosInf = NaN"
| "add64 PosInf b = PosInf"
| "add64 a PosInf = PosInf"
| "add64 NegInf b = NegInf"
| "add64 a NegInf = NegInf"

fun sub64 :: "double \<Rightarrow> double \<Rightarrow> double" where
  "sub64 NaN b = NaN"
| "sub64 a NaN = NaN"
| "sub64 (Number x) (Number y) = nearest_double (x - y)"
| "sub64 PosInf PosInf = NaN"
| "sub64 NegInf NegInf = NaN"
| "sub64 PosInf b = PosInf"
| "sub64 a PosInf = NegInf"
| "sub64 NegInf b = NegInf"
| "sub64 a NegInf = PosInf"

fun mul64 :: "double \<Rightarrow> double \<Rightarrow> double" where
  "mul64 NaN b = NaN"
| "mul64 a NaN = NaN"
| "mul64 (Number x) (Number y) = nearest_double (x * y)"
| "mul64 a b = (if sign_of a * sign_of b = 0 then NaN else infinity (sign_of a * sign_of b))"

fun div64 :: "double \<Rightarrow> double \<Rightarrow> double" where
  "div64 NaN b = NaN"
| "div64 a NaN = NaN"
| "div64 (Number x) (Number y) =
     (if y = 0 then (if x = 0 then NaN else infinity x) else nearest_double (x / y))"
| "div64 (Number x) b = Number 0"
| "div64 a (Number y) = infinity (if y < 0 then - sign_of a else sign_of a)"
| "div64 a b = NaN"

fun Math_sqrt :: "double \<Rightarrow> double" where
  "Math_sqrt (Number x) = (if x < 0 then NaN else nearest_double (sqrt x))"
| "Math_sqrt PosInf = PosInf"
| "Math_sqrt d = NaN"

text \<open>
  \<open>x ** 2\<close> and \<open>Math.acos(x)\<close>. ECMAScript leaves the accuracy of both to the
  implementation; it fixes that \<open>Math.acos\<close> is NaN outside \<open>[-1, 1]\<close> and 0 at 1. Here
  \<open>x ** 2\<close> is the rounded product \<open>x * x\<close> and \<open>Math.acos\<close> the rounded arc cosine, which
  an implementation may miss by a unit in the last place. The facts proved of
  \<open>calculateElbowAngle\<close> do not rest on that digit: they are bounds with a margin, and values
  at inputs where the squares are whole numbers and \<open>Math.acos\<close> is taken at 1 or outside
  \<open>[-1, 1]\<close>.
\<close>

definition sqr64 :: "double \<Rightarrow> double" where
  "sqr64 a = mul64 a a"

fun Math_acos :: "double \<Rightarrow> double" where
  "Math_acos (Number x) = (if x < - 1 \<or> 1 < x then NaN else nearest_double (arccos x))"
| "Math_acos d = NaN"

text \<open>\<open>Math.PI\<close>, the double nearest to \<open>pi\<close>: \<open>884279719003555 / 2 ^ 48\<close>.\<close>

definition Math_PI :: double where
  "Math_PI = Number (884279719003555 / 281474976710656)"

definition isNaN :: "double \<Rightarrow> bool" where
  "isNaN d = (d = NaN)"

text \<open>
  The real that a finite double denotes. It is 0 on the others, of which it is not taken:
  the angle it is applied to is NaN or finite (\<open>calculateElbowAngle_range\<close> below).
\<close>

fun value_of :: "double \<Rightarrow> real" where
  "value_of (Number x) = x"
| "value_of d = 0"

text \<open>Doubles that are NaN or not below zero, and doubles that are NaN or not above it.\<close>

fun not_negative :: "double \<Rightarrow> bool" where
  "not_negative (Number x) = (0 \<le> x)"
| "not_negative NegInf = False"
| "not_negative d = True"

fun not_positive :: "double \<Rightarrow> bool" where
  "not_positive (Number x) = (x \<le> 0)"
| "not_positive PosInf = False"
| "not_positive d = True"

text \<open>
  For the analysis of rounding: \<open>rounded k x y\<close> says that \<open>x\<close> is \<open>y\<close> up to \<open>k\<close> roundings,
  each of which changes a number by at most its \<open>2 ^ 53\<close>th part; \<open>moderate k v\<close> says that
  \<open>v\<close> is 0 or of a size from \<open>2 ^ - k\<close> to \<open>2 ^ k\<close>, so that numbers made of a few moderate
  ones neither overflow nor become subnormal.
\<close>

definition rounded :: "nat \<Rightarrow> real \<Rightarrow> real \<Rightarrow> bool" where
  "rounded k x y = (y * (1 - 1 / 2 ^ 53) ^ k \<le> x \<and> x \<le> y * (1 + 1 / 2 ^ 53) ^ k)"




section \<open>The REBA calculator\<close>

subsection \<open>Scoring tables\<close>

definition REBA_TABLE_A :: "int list list" where
  "REBA_TABLE_A =
    [[1, 2, 3, 4],
     [2, 3, 4, 5],
     [2, 4, 5, 6],
     [3, 5, 6, 7],
     [4, 6, 7, 8]]"

definition REBA_TABLE_B :: "int list list" where
  "REBA_TABLE_B =
    [[1, 2, 2],
     [1, 2, 3],
     [3, 4, 5],
     [4, 5, 6],
     [6, 7, 8],
     [7, 8, 9]]"

definition REBA_TABLE_C :: "int list list" where
  "REBA_TABLE_C =
    [[1, 1, 1, 2, 3, 3, 4, 5, 6, 7, 7, 7],
     [1, 2, 2, 3, 4, 4, 5, 6, 6, 7, 7, 8],
     [2, 3, 3, 3, 4, 5, 6, 7, 7, 8, 8, 8],
     [3, 4, 4, 4, 5, 6, 7, 8, 8, 9, 9, 9],
     [4, 4, 4, 5, 6, 7, 8, 8, 9, 9, 9, 9],
     [6, 6, 6, 7, 8, 8, 9, 9, 10, 10, 10, 10],
     [7, 7, 7, 8, 9, 9, 9, 10, 10, 11, 11, 11],
     [8, 8, 8, 9, 10, 10, 10, 10, 10, 11, 11, 11],
     [9, 9, 9, 10, 10, 10, 11, 11, 11, 12, 12, 12],
     [10, 10, 10, 11, 11, 11, 11, 12, 12, 12, 12, 12],
     [11, 11, 11, 11, 12, 12, 12, 12, 12, 12, 12, 12],
     [12, 12, 12, 12, 12, 12, 12, 12, 12, 12, 12, 12]]"

subsection \<open>Body part scores\<close>

text \<open>
  A parameter with a default value (\<open>isNeckTwisted = false\<close>, \<open>isSupported = true\<close>, ...)
  is an explicit argument; \<open>calculateREBA\<close> passes the default. A \<open>let score\<close> that the
  source reassigns is a chain of bindings of the same name.
\<close>

definition getNeckScore :: "real \<Rightarrow> bool \<Rightarrow> int" where
  "getNeckScore neckAngle isNeckTwisted =
     (let score = 1;
          score = (if 0 \<le> neckAngle \<and> neckAngle < 20 then 1
                   else if 20 \<le> neckAngle then 2
                   else score);
          score = (if neckAngle < 0 then 2 else score);
          score = (if isNeckTwisted then score + 1 else score)
      in min 3 score)"

definition getTrunkScore :: "real \<Rightarrow> bool \<Rightarrow> int" where
  "getTrunkScore trunkAngle isTrunkTwisted =
     (let score = 1;
          score = (if 0 \<le> trunkAngle \<and> trunkAngle < 5 then 1
                   else if 5 \<le> trunkAngle \<and> trunkAngle < 20 then 2
                   else if 20 \<le> trunkAngle \<and> trunkAngle < 60 then 3
                   else if 60 \<le> trunkAngle then 4
                   else score);
          score = (if isTrunkTwisted then score + 1 else score)
      in min 5 score)"

definition getLegsScore :: "real \<Rightarrow> bool \<Rightarrow> int" where
  "getLegsScore kneeAngle isSupported =
     (let score = 1;
          score = (if 30 \<le> kneeAngle \<and> kneeAngle < 60 then 2
                   else if 60 \<le> kneeAngle then 2
                   else score);
          score = (if \<not> isSupported then score + 1 else score)
      in min 4 score)"

definition getUpperArmScore :: "real \<Rightarrow> bool \<Rightarrow> bool \<Rightarrow> bool \<Rightarrow> int" where
  "getUpperArmScore upperArmAngle isShoulderRaised isArmAbducted isArmSupported =
     (let score = 1;
          score = (if 20 \<le> upperArmAngle \<and> upperArmAngle < 45 then 2
                   else if 45 \<le> upperArmAngle \<and> upperArmAngle < 90 then 3
                   else if 90 \<le> upperArmAngle then 4
                   else score);
          score = (if upperArmAngle < - 20 then 2 else score);
          score = (if isShoulderRaised then score + 1 else score);
          score = (if isArmAbducted then score + 1 else score);
          score = (if isArmSupported then score - 1 else score)
      in max 1 (min 6 score))"

definition getLowerArmScore :: "real \<Rightarrow> int" where
  "getLowerArmScore lowerArmAngle =
     (if 60 \<le> lowerArmAngle \<and> lowerArmAngle \<le> 100 then 1 else 2)"

definition getWristScore :: "real \<Rightarrow> bool \<Rightarrow> int" where
  "getWristScore wristAngle isWristTwisted =
     (let score = 1;
          score = (if \<bar>wristAngle\<bar> > 15 then 2 else score);
          score = (if isWristTwisted then score + 1 else score)
      in min 3 score)"

subsection \<open>Table lookups\<close>

definition getScoreA :: "int \<Rightarrow> int \<Rightarrow> int \<Rightarrow> int" where
  "getScoreA neck trunk legs =
     (let neckIndex = max 0 (min 4 (neck - 1));
          trunkIndex = max 0 (min 2 (trunk - 1));
          legsAdjustedIndex = (if legs = 1 then 0 else if legs = 2 then 1 else min 3 (legs - 1))
      in js_or (js_opt_index2 REBA_TABLE_A neckIndex legsAdjustedIndex) 1)"

definition getScoreB :: "int \<Rightarrow> int \<Rightarrow> int \<Rightarrow> int" where
  "getScoreB upperArm lowerArm wrist =
     (let upperArmIndex = max 0 (min 5 (upperArm - 1));
          lowerArmIndex = max 0 (min 1 (lowerArm - 1));
          wristIndex = max 0 (min 2 (wrist - 1))
      in js_or (js_opt_index2 REBA_TABLE_B upperArmIndex wristIndex) 1)"

definition getFinalScore :: "int \<Rightarrow> int \<Rightarrow> int \<Rightarrow> int \<Rightarrow> int" where
  "getFinalScore scoreA scoreB loadCoupling activity =
     (let scoreAIndex = max 0 (min 11 (scoreA - 1));
          scoreBIndex = max 0 (min 11 (scoreB - 1));
          finalScore = js_or (js_opt_index2 REBA_TABLE_C scoreAIndex scoreBIndex) 1;
          finalScore = finalScore + (loadCoupling + activity)
      in max 1 (min 15 finalScore))"

definition getRiskLevel :: "int \<Rightarrow> string" where
  "getRiskLevel score =
     (if score = 1 then ''Negligible''
      else if 2 \<le> score \<and> score \<le> 3 then ''Low''
      else if 4 \<le> score \<and> score \<le> 7 then ''Medium''
      else if 8 \<le> score \<and> score \<le> 10 then ''High''
      else ''Very High'')"

definition getActionLevel :: "int \<Rightarrow> string" where
  "getActionLevel score =
     (if score = 1 then ''None necessary''
      else if 2 \<le> score \<and> score \<le> 3 then ''May be necessary''
      else if 4 \<le> score \<and> score \<le> 7 then ''Necessary''
      else if 8 \<le> score \<and> score \<le> 10 then ''Necessary soon''
      else ''Necessary now'')"


section \<open>The weight module: table lookups\<close>

text \<open>
  The weight-detection file keeps its own copy of REBA's Table C and of the three RULA tables
  ("copied from the original calculator"). Its lookups index without optional chaining, so a
  missing row would throw; the result is a \<open>failure + int\<close>. The RULA functions carry the
  suffix \<open>_rula\<close>: the file names them \<open>getScoreA\<close>, \<open>getScoreB\<close>, \<open>getFinalScore\<close> and
  \<open>getRiskLevel\<close>, as the REBA calculator names its own.
\<close>

definition scoreMatrix :: "int list list" where
  "scoreMatrix =
    [[1, 1, 1, 2, 3, 3, 4, 5, 6, 7, 7, 7],
     [1, 2, 2, 3, 4, 4, 5, 6, 6, 7, 7, 8],
     [2, 3, 3, 3, 4, 5, 6, 7, 7, 8, 8, 8],
     [3, 4, 4, 4, 5, 6, 7, 8, 8, 9, 9, 9],
     [4, 4, 4, 5, 6, 7, 8, 8, 9, 9, 9, 9],
     [6, 6, 6, 7, 8, 8, 9, 9, 10, 10, 10, 10],
     [7, 7, 7, 8, 9, 9, 9, 10, 10, 11, 11, 11],
     [8, 8, 8, 9, 10, 10, 10, 10, 10, 11, 11, 11],
     [9, 9, 9, 10, 10, 10, 11, 11, 11, 12, 12, 12],
     [10, 10, 10, 11, 11, 11, 11, 12, 12, 12, 12, 12],
     [11, 11, 11, 11, 12, 12, 12, 12, 12, 12, 12, 12],
     [12, 12, 12, 12, 12, 12, 12, 12, 12, 12, 12, 12]]"

definition getRebaFinalScore :: "int \<Rightarrow> int \<Rightarrow> failure + int" where
  "getRebaFinalScore scoreA scoreB =
     (let aIndex = min (max (scoreA - 1) 0) 11;
          bIndex = min (max (scoreB - 1) 0) 11
      in js_index2 scoreMatrix aIndex bIndex)"

definition getRebaRiskLevel :: "int \<Rightarrow> string" where
  "getRebaRiskLevel score =
     (if score = 1 then ''Negligible Risk''
      else if score \<le> 3 then ''Low Risk''
      else if score \<le> 7 then ''Medium Risk''
      else if score \<le> 10 then ''High Risk''
      else ''Very High Risk'')"

definition getRebaActionLevel :: "int \<Rightarrow> string" where
  "getRebaActionLevel score =
     (if score = 1 then ''None necessary''
      else if score \<le> 3 then ''May be necessary''
      else if score \<le> 7 then ''Necessary''
      else if score \<le> 10 then ''Necessary soon''
      else ''Necessary now'')"

definition scoreATable :: "int list list list" where
  "scoreATable =
    [[[1,2,2,2,2,3,3,3], [2,2,2,2,3,3,3,3], [2,3,3,3,3,3,4,4]],
     [[2,2,2,2,3,3,3,3], [2,2,2,2,3,3,3,3], [3,3,3,3,3,4,4,4]],
     [[2,3,3,3,3,4,4,4], [3,3,3,3,3,4,4,4], [3,4,4,4,4,4,5,5]],
     [[3,3,3,4,4,4,5,5], [3,3,4,4,4,4,5,5], [4,4,4,4,5,5,5,6]],
     [[4,4,4,4,4,5,5,5], [4,4,4,4,4,5,5,5], [4,4,4,5,5,5,6,6]],
     [[6,6,6,6,6,7,7,7], [6,6,6,6,6,7,7,7], [6,6,7,7,7,7,7,8]]]"

definition getScoreA_rula :: "int \<Rightarrow> int \<Rightarrow> int \<Rightarrow> failure + int" where
  "getScoreA_rula upperArm lowerArm wrist =
     (let upperArmIdx = max 0 (min 5 (upperArm - 1));
          lowerArmIdx = max 0 (min 2 (lowerArm - 1));
          wristIdx = max 0 (min 7 (wrist - 1))
      in case js_nth scoreATable upperArmIdx of
           None \<Rightarrow> Inl TypeError
         | Some plane \<Rightarrow> js_index2 plane lowerArmIdx wristIdx)"

definition scoreBTable :: "int list list" where
  "scoreBTable =
    [[1,2,3,3,4,5],
     [2,2,3,4,5,5],
     [3,3,3,4,5,6],
     [3,3,4,4,5,6],
     [4,5,5,5,6,7],
     [4,5,5,6,6,7]]"

definition getScoreB_rula :: "int \<Rightarrow> int \<Rightarrow> failure + int" where
  "getScoreB_rula neck trunk =
     (let neckIdx = max 0 (min 5 (neck - 1));
          trunkIdx = max 0 (min 5 (trunk - 1))
      in js_index2 scoreBTable neckIdx trunkIdx)"

definition finalScoreTable :: "int list list" where
  "finalScoreTable =
    [[1,1,1,2,3,3,4],
     [1,2,2,3,3,3,4],
     [2,2,2,3,3,3,4],
     [3,3,3,3,3,4,4],
     [4,4,4,4,4,4,5],
     [4,4,4,4,4,4,5],
     [5,5,5,5,5,5,6],
     [5,5,5,5,5,6,6]]"

definition getFinalScore_rula :: "int \<Rightarrow> int \<Rightarrow> failure + int" where
  "getFinalScore_rula scoreA scoreB =
     (let scoreAIdx = max 0 (min 7 (scoreA - 1));
          scoreBIdx = max 0 (min 6 (scoreB - 1))
      in js_index2 finalScoreTable scoreAIdx scoreBIdx)"

definition getRiskLevel_rula :: "int \<Rightarrow> string" where
  "getRiskLevel_rula finalScore =
     (if finalScore \<le> 2 then ''Acceptable''
      else if finalScore \<le> 4 then ''Investigate''
      else if finalScore \<le> 6 then ''Investigate Soon''
      else ''Investigate Immediately'')"


section \<open>Data model\<close>

text \<open>
  A keypoint \<open>{x, y, score}\<close>; the fields carry the prefix \<open>kp_\<close>. A pose is a list whose
  elements may be \<open>undefined\<close>.
\<close>

record Keypoint =
  kp_x :: real
  kp_y :: real
  kp_score :: real

text \<open>\<open>keypoints[i]\<close>: \<open>undefined\<close> for a missing element as for an index out of range.\<close>

definition js_elem :: "'a option list \<Rightarrow> int \<Rightarrow> 'a option" where
  "js_elem xs i = (case js_nth xs i of None \<Rightarrow> None | Some v \<Rightarrow> v)"

text \<open>
  The elbow angle of the weight module, computed on doubles: the coordinates of a keypoint
  are finite doubles, given by the reals they denote, and every operation is the one of
  section \<open>Doubles\<close>. The result is an \<open>option\<close> whose \<open>None\<close> is a thrown TypeError: the
  read of a property of an \<open>undefined\<close> keypoint, written as a binding \<open>k \<leftarrow> keypoint\<close>. A
  vector \<open>{x, y}\<close> is a pair. The returned number, 90 or the angle, is finite and given as a
  real.
\<close>

definition calculateElbowAngle ::
    "Keypoint option \<Rightarrow> Keypoint option \<Rightarrow> Keypoint option \<Rightarrow> real option" where
  "calculateElbowAngle shoulder elbow wrist = do {
     e \<leftarrow> elbow;
     s \<leftarrow> shoulder;
     let shoulderToElbow =
       (sub64 (Number (kp_x e)) (Number (kp_x s)), sub64 (Number (kp_y e)) (Number (kp_y s)));
     w \<leftarrow> wrist;
     let elbowToWrist =
       (sub64 (Number (kp_x w)) (Number (kp_x e)), sub64 (Number (kp_y w)) (Number (kp_y e)));
     let dot = add64 (mul64 (fst shoulderToElbow) (fst elbowToWrist))
                     (mul64 (snd shoulderToElbow) (snd elbowToWrist));
     let magA = Math_sqrt (add64 (sqr64 (fst shoulderToElbow)) (sqr64 (snd shoulderToElbow)));
     let magB = Math_sqrt (add64 (sqr64 (fst elbowToWrist)) (sqr64 (snd elbowToWrist)));
     let angle = mul64 (Math_acos (div64 dot (mul64 magA magB))) (div64 (Number 180) Math_PI);
     Some (if isNaN angle then 90 else value_of angle)
   }"

text \<open>
  Modelled from the spec: the type of a RULA score, whose declaration (in the RULA
  calculator) is not among the sources. The data model of the spec gives it the fields
  \<open>upperArm\<close>, \<open>lowerArm\<close>, \<open>wrist\<close>, \<open>neck\<close>, \<open>trunk\<close>, \<open>scoreA\<close>, \<open>scoreB\<close>, \<open>finalScore\<close>
  and \<open>riskLevel\<close>, as \<open>ReportData.rulaScore\<close> of the report generator does. The interface
  \<open>REBAScore\<close> has these fields too: it is the record \<open>REBAScore\<close>, which adds its other
  fields to them.
\<close>

record PostureScore =
  upperArm :: int
  lowerArm :: int
  wrist :: int
  neck :: int
  trunk :: int
  scoreA :: int
  scoreB :: int
  finalScore :: int
  riskLevel :: string

record REBAScore = PostureScore +
  legs :: int
  actionLevel :: string
  neckAngle :: real
  trunkAngle :: real
  upperArmAngle :: real
  lowerArmAngle :: real
  wristAngle :: real

datatype ArmPosition = Extended | Close | Overhead

datatype LoadDirection = Front | Side | Back

record PostureAnalysis =
  isLifting :: bool
  isCarrying :: bool
  armPosition :: ArmPosition
  spineDeviation :: real
  loadDirection :: LoadDirection


section \<open>The REBA calculator: \<open>calculateREBA\<close>\<close>

text \<open>
  The result is \<open>None\<close> where the source returns \<open>null\<close>: for a missing array, for fewer
  than 17 keypoints, and from the \<open>catch\<close>, which a TypeError reaches when a property of an
  \<open>undefined\<close> keypoint is read. In the \<open>do\<close> block a binding \<open>k \<leftarrow> keypoint\<close> is such a
  read: it yields \<open>None\<close> for an \<open>undefined\<close> keypoint. A point \<open>{x, y}\<close> is a pair.
\<close>

definition calculateREBA :: "Keypoint option list option \<Rightarrow> REBAScore option" where
  "calculateREBA keypoints_arg =
     (case keypoints_arg of
        None \<Rightarrow> None
      | Some keypoints \<Rightarrow>
          if length keypoints < 17 then None
          else
            (let nose = js_elem keypoints 0;
                 leftShoulder = js_elem keypoints 5;
                 rightShoulder = js_elem keypoints 6;
                 leftElbow = js_elem keypoints 7;
                 rightElbow = js_elem keypoints 8;
                 leftWrist = js_elem keypoints 9;
                 rightWrist = js_elem keypoints 10;
                 leftHip = js_elem keypoints 11;
                 rightHip = js_elem keypoints 12;
                 leftKnee = js_elem keypoints 13;
                 rightKnee = js_elem keypoints 14;
                 useLeftSide =
                   (js_or (map_option kp_score leftShoulder) 0
                      > js_or (map_option kp_score rightShoulder) 0);
                 shoulder = (if useLeftSide then leftShoulder else rightShoulder);
                 elbow = (if useLeftSide then leftElbow else rightElbow);
                 wrist = (if useLeftSide then leftWrist else rightWrist);
                 hip = (if useLeftSide then leftHip else rightHip);
                 knee = (if useLeftSide then leftKnee else rightKnee)
             in do {
               ls \<leftarrow> leftShoulder;
               rs \<leftarrow> rightShoulder;
               let shoulderMidpoint = ((kp_x ls + kp_x rs) / 2, (kp_y ls + kp_y rs) / 2);
               n \<leftarrow> nose;
               let neckAngle =
                 atan2 (kp_y n - snd shoulderMidpoint) (kp_x n - fst shoulderMidpoint) * 180 / pi;
               lh \<leftarrow> leftHip;
               rh \<leftarrow> rightHip;
               let hipMidpoint = ((kp_x lh + kp_x rh) / 2, (kp_y lh + kp_y rh) / 2);
               let trunkAngle =
                 \<bar>atan2 (snd shoulderMidpoint - snd hipMidpoint)
                         (fst shoulderMidpoint - fst hipMidpoint) * 180 / pi - 90\<bar>;
               e \<leftarrow> elbow;
               s \<leftarrow> shoulder;
               let upperArmAngle = \<bar>atan2 (kp_y e - kp_y s) (kp_x e - kp_x s) * 180 / pi - 90\<bar>;
               w \<leftarrow> wrist;
               let lowerArmAngle =
                 \<bar>atan2 (kp_y w - kp_y e) (kp_x w - kp_x e) * 180 / pi
                    - atan2 (kp_y e - kp_y s) (kp_x e - kp_x s) * 180 / pi\<bar>;
               let wristFlexionAngle = 15;
               let kneeAngle =
                 (case hip of
                    None \<Rightarrow> 30
                  | Some h \<Rightarrow>
                      (case knee of
                         None \<Rightarrow> 30
                       | Some k \<Rightarrow> \<bar>atan2 (kp_y k - kp_y h) (kp_x k - kp_x h) * 180 / pi\<bar>));
               let neckScore = getNeckScore \<bar>neckAngle - 90\<bar> False;
               let trunkScore = getTrunkScore trunkAngle False;
               let legsScore = getLegsScore kneeAngle True;
               let upperArmScore = getUpperArmScore upperArmAngle False False False;
               let lowerArmScore = getLowerArmScore lowerArmAngle;
               let wristScore = getWristScore wristFlexionAngle False;
               let scoreA = getScoreA neckScore trunkScore legsScore;
               let scoreB = getScoreB upperArmScore lowerArmScore wristScore;
               let finalScore = getFinalScore scoreA scoreB 0 0;
               Some \<lparr>upperArm = upperArmScore,
                      lowerArm = lowerArmScore,
                      wrist = wristScore,
                      neck = neckScore,
                      trunk = trunkScore,
                      scoreA = scoreA,
                      scoreB = scoreB,
                      finalScore = finalScore,
                      riskLevel = getRiskLevel finalScore,
                      legs = legsScore,
                      actionLevel = getActionLevel finalScore,
                      neckAngle = real_of_int (js_round (\<bar>neckAngle - 90\<bar> * 10)) / 10,
                      trunkAngle = real_of_int (js_round (trunkAngle * 10)) / 10,
                      upperArmAngle = real_of_int (js_round (upperArmAngle * 10)) / 10,
                      lowerArmAngle = real_of_int (js_round (lowerArmAngle * 10)) / 10,
                      wristAngle = real_of_int (js_round (wristFlexionAngle * 10)) / 10\<rparr>
             }))"


section \<open>The weight module: posture analysis\<close>

text \<open>
  The functions below return an \<open>option\<close> whose \<open>None\<close> is a thrown TypeError, as
  \<open>calculateElbowAngle\<close> does: nothing catches here, and the only operation that can throw
  is the read of a property of an \<open>undefined\<close> keypoint. In \<open>analyzePosture\<close> the conditions
  of the three \<open>if\<close> statements that set the flags are bound as \<open>carrying\<close>, \<open>lifting\<close> and
  \<open>above\<close>, and \<open>unchanged\<close> is the result when no statement assigns.
\<close>

definition analyzePosture :: "Keypoint option list \<Rightarrow> PostureAnalysis option" where
  "analyzePosture keypoints =
     (let isLifting = False;
          isCarrying = False;
          armPosition = Close;
          spineDeviation = 0;
          loadDirection = Front;
          unchanged = \<lparr>isLifting = isLifting, isCarrying = isCarrying,
                       armPosition = armPosition, spineDeviation = spineDeviation,
                       loadDirection = loadDirection\<rparr>
      in if 17 \<le> length keypoints then
           (let leftShoulder = js_elem keypoints 5;
                rightShoulder = js_elem keypoints 6;
                leftElbow = js_elem keypoints 7;
                rightElbow = js_elem keypoints 8;
                leftWrist = js_elem keypoints 9;
                rightWrist = js_elem keypoints 10;
                leftHip = js_elem keypoints 11;
                rightHip = js_elem keypoints 12;
                neck = js_elem keypoints 1
            in if leftShoulder \<noteq> None \<and> rightShoulder \<noteq> None \<and> leftWrist \<noteq> None
                  \<and> rightWrist \<noteq> None \<and> leftElbow \<noteq> None \<and> rightElbow \<noteq> None
               then do {
                 leftElbowAngle \<leftarrow> calculateElbowAngle leftShoulder leftElbow leftWrist;
                 rightElbowAngle \<leftarrow> calculateElbowAngle rightShoulder rightElbow rightWrist;
                 let leftArmExtended = (leftElbowAngle > 30 \<and> leftElbowAngle < 150);
                 let rightArmExtended = (rightElbowAngle > 30 \<and> rightElbowAngle < 150);
                 lw \<leftarrow> leftWrist;
                 ls \<leftarrow> leftShoulder;
                 let leftWristAway = (\<bar>kp_x lw - kp_x ls\<bar> > 0.05);
                 rw \<leftarrow> rightWrist;
                 rs \<leftarrow> rightShoulder;
                 let rightWristAway = (\<bar>kp_x rw - kp_x rs\<bar> > 0.05);
                 let carrying =
                   ((leftArmExtended \<and> leftWristAway) \<or> (rightArmExtended \<and> rightWristAway));
                 let isCarrying = (if carrying then True else isCarrying);
                 let armPosition = (if carrying then Extended else armPosition);
                 let lifting =
                   (leftArmExtended \<and> rightArmExtended \<and> (leftWristAway \<or> rightWristAway));
                 let isLifting = (if lifting then True else isLifting);
                 let armPosition = (if lifting then Extended else armPosition);
                 let above = (kp_y lw < kp_y ls - 0.1 \<or> kp_y rw < kp_y rs - 0.1);
                 let armPosition = (if above then Overhead else armPosition);
                 let isLifting = (if above then True else isLifting);
                 spineDeviation \<leftarrow>
                   (if leftHip \<noteq> None \<and> rightHip \<noteq> None then do {
                      lh \<leftarrow> leftHip;
                      rh \<leftarrow> rightHip;
                      let hipCenter = ((kp_x lh + kp_x rh) / 2, (kp_y lh + kp_y rh) / 2);
                      let shoulderCenter = ((kp_x ls + kp_x rs) / 2, (kp_y ls + kp_y rs) / 2);
                      Some (\<bar>fst shoulderCenter - fst hipCenter\<bar> * 100)
                    } else Some spineDeviation);
                 Some \<lparr>isLifting = isLifting, isCarrying = isCarrying,
                        armPosition = armPosition, spineDeviation = spineDeviation,
                        loadDirection = loadDirection\<rparr>
               }
               else Some unchanged)
         else Some unchanged)"

definition calculateWeightFromPosture ::
    "PostureAnalysis \<Rightarrow> Keypoint option list \<Rightarrow> real option" where
  "calculateWeightFromPosture bodyPosture keypoints =
     (let baseWeight = 0;
          baseWeight =
            (if isLifting bodyPosture \<and> armPosition bodyPosture = Extended then 10
             else if isCarrying bodyPosture \<and> armPosition bodyPosture = Extended then 7
             else if armPosition bodyPosture = Overhead then 12
             else baseWeight)
      in if 17 \<le> length keypoints \<and> baseWeight > 0 then
           (let leftShoulder = js_elem keypoints 5;
                rightShoulder = js_elem keypoints 6;
                leftElbow = js_elem keypoints 7;
                rightElbow = js_elem keypoints 8;
                leftWrist = js_elem keypoints 9;
                rightWrist = js_elem keypoints 10
            in if leftShoulder \<noteq> None \<and> rightShoulder \<noteq> None \<and> leftElbow \<noteq> None
                  \<and> rightElbow \<noteq> None \<and> leftWrist \<noteq> None \<and> rightWrist \<noteq> None
               then do {
                 leftElbowAngle \<leftarrow> calculateElbowAngle leftShoulder leftElbow leftWrist;
                 rightElbowAngle \<leftarrow> calculateElbowAngle rightShoulder rightElbow rightWrist;
                 let asymmetry = \<bar>leftElbowAngle - rightElbowAngle\<bar>;
                 let baseWeight = (if asymmetry > 30 then baseWeight + 3 else baseWeight);
                 ls \<leftarrow> leftShoulder;
                 rs \<leftarrow> rightShoulder;
                 let shoulderCenter = ((kp_x ls + kp_x rs) / 2, (kp_y ls + kp_y rs) / 2);
                 lw \<leftarrow> leftWrist;
                 rw \<leftarrow> rightWrist;
                 let wristCenter = ((kp_x lw + kp_x rw) / 2, (kp_y lw + kp_y rw) / 2);
                 let baseWeight =
                   (if snd wristCenter > snd shoulderCenter + 0.15 then baseWeight + 5
                    else baseWeight);
                 Some baseWeight
               }
               else Some baseWeight)
         else Some baseWeight)"

datatype ObjectType = Box | Bag | Tool | Unknown

datatype DetectedObject = DetectedObject ObjectType real real "real \<times> real \<times> real \<times> real"

record WeightEstimation =
  estimatedWeight :: real
  confidence :: real
  detectedObjects :: "DetectedObject list"
  bodyPosture :: PostureAnalysis

definition estimateWeightFromPosture :: "Keypoint option list \<Rightarrow> WeightEstimation option" where
  "estimateWeightFromPosture keypoints = do {
     bodyPosture \<leftarrow> analyzePosture keypoints;
     estimatedWeight \<leftarrow> calculateWeightFromPosture bodyPosture keypoints;
     let isHoldingObject = (isLifting bodyPosture \<or> isCarrying bodyPosture);
     Some \<lparr>estimatedWeight = (if isHoldingObject then estimatedWeight else 0),
            confidence = (if isHoldingObject then 0.8 else 0.1),
            detectedObjects = [],
            bodyPosture = bodyPosture\<rparr>
   }"


section \<open>The weight module: adjusted scores\<close>

text \<open>
  An adjusted score is the object literal \<open>{...original, \<dots>}\<close>. Its field \<open>spread\<close> holds
  the properties of the original, those that the literal lists again overwritten; the
  properties the literal adds follow. \<open>isWeightAdjusted\<close> is \<open>None\<close> where the literal has no
  such property, so that reading it yields \<open>undefined\<close>.
  The original is typed \<open>any\<close>: it is any record with the fields of a score, and \<open>None\<close>
  where it is \<open>null\<close> or \<open>undefined\<close>; the optional \<open>manualWeight\<close> is \<open>None\<close> when absent.
\<close>

record 'a WeightAdjusted =
  spread :: 'a
  effectiveWeight :: real
  weightMultiplier :: real
  isWeightAdjusted :: "bool option"

definition calculateWeightAdjustedReba ::
    "'a REBAScore_scheme option \<Rightarrow> WeightEstimation \<Rightarrow> real option
      \<Rightarrow> failure + 'a REBAScore_scheme WeightAdjusted option" where
  "calculateWeightAdjustedReba originalReba weightEstimation manualWeight =
     (case originalReba of
        None \<Rightarrow> Inr None
      | Some original \<Rightarrow>
          (let effectiveWeight = js_or manualWeight (estimatedWeight weightEstimation);
               weightMultiplier = (1.0 :: real);
               weightMultiplier =
                 (if effectiveWeight \<le> 5 then 1.0
                  else if effectiveWeight \<le> 10 then 1.1
                  else if effectiveWeight \<le> 20 then 1.3
                  else if effectiveWeight \<le> 40 then 1.5
                  else 1.8);
               adjustedScoreA =
                 min 12 (js_round (real_of_int (scoreA original) * weightMultiplier));
               adjustedScoreB =
                 min 12 (js_round (real_of_int (scoreB original) * weightMultiplier))
           in case getRebaFinalScore adjustedScoreA adjustedScoreB of
                Inl thrown \<Rightarrow> Inl thrown
              | Inr tableScore \<Rightarrow>
                  (let adjustedFinalScore = min 15 tableScore
                   in Inr (Some
                        \<lparr>spread = original
                           \<lparr>scoreA := adjustedScoreA,
                            scoreB := adjustedScoreB,
                            finalScore := adjustedFinalScore,
                            riskLevel := getRebaRiskLevel adjustedFinalScore,
                            actionLevel := getRebaActionLevel adjustedFinalScore\<rparr>,
                         effectiveWeight = effectiveWeight,
                         weightMultiplier = weightMultiplier,
                         isWeightAdjusted = Some True\<rparr>))))"

definition calculateWeightAdjustedRula ::
    "'a PostureScore_scheme option \<Rightarrow> WeightEstimation \<Rightarrow> real option
      \<Rightarrow> 'a PostureScore_scheme WeightAdjusted option" where
  "calculateWeightAdjustedRula originalRula weightEstimation manualWeight =
     (case originalRula of
        None \<Rightarrow> None
      | Some original \<Rightarrow>
          (let effectiveWeight =
                 js_or (Some (js_or manualWeight (estimatedWeight weightEstimation))) 0;
               weightMultiplier = 1;
               weightMultiplier =
                 (if effectiveWeight > 23 then 3
                  else if effectiveWeight > 10 then 2
                  else if effectiveWeight > 5 then 1.5
                  else weightMultiplier);
               adjustedFinalScore =
                 min 7 \<lceil>real_of_int (finalScore original) * weightMultiplier\<rceil>
           in Some
                \<lparr>spread = original
                   \<lparr>finalScore := adjustedFinalScore,
                    riskLevel :=
                      (if adjustedFinalScore \<le> 2 then ''Low Risk''
                       else if adjustedFinalScore \<le> 4 then ''Medium Risk''
                       else if adjustedFinalScore \<le> 6 then ''High Risk''
                       else ''Critical Risk'')\<rparr>,
                 effectiveWeight = effectiveWeight,
                 weightMultiplier = weightMultiplier,
                 isWeightAdjusted = None\<rparr>))"


section \<open>Example inputs\<close>

text \<open>A person standing upright, arms hanging, every keypoint detected with confidence 0.9.\<close>

definition standing :: "Keypoint option list" where
  "standing =
    [Some \<lparr>kp_x = 0.5, kp_y = 0.1, kp_score = 0.9\<rparr>,
     Some \<lparr>kp_x = 0.48, kp_y = 0.08, kp_score = 0.9\<rparr>,
     Some \<lparr>kp_x = 0.52, kp_y = 0.08, kp_score = 0.9\<rparr>,
     Some \<lparr>kp_x = 0.46, kp_y = 0.1, kp_score = 0.9\<rparr>,
     Some \<lparr>kp_x = 0.54, kp_y = 0.1, kp_score = 0.9\<rparr>,
     Some \<lparr>kp_x = 0.4, kp_y = 0.3, kp_score = 0.9\<rparr>,
     Some \<lparr>kp_x = 0.6, kp_y = 0.3, kp_score = 0.9\<rparr>,
     Some \<lparr>kp_x = 0.4, kp_y = 0.5, kp_score = 0.9\<rparr>,
     Some \<lparr>kp_x = 0.6, kp_y = 0.5, kp_score = 0.9\<rparr>,
     Some \<lparr>kp_x = 0.4, kp_y = 0.7, kp_score = 0.9\<rparr>,
     Some \<lparr>kp_x = 0.6, kp_y = 0.7, kp_score = 0.9\<rparr>,
     Some \<lparr>kp_x = 0.45, kp_y = 0.6, kp_score = 0.9\<rparr>,
     Some \<lparr>kp_x = 0.55, kp_y = 0.6, kp_score = 0.9\<rparr>,
     Some \<lparr>kp_x = 0.45, kp_y = 0.8, kp_score = 0.9\<rparr>,
     Some \<lparr>kp_x = 0.55, kp_y = 0.8, kp_score = 0.9\<rparr>,
     Some \<lparr>kp_x = 0.45, kp_y = 1, kp_score = 0.9\<rparr>,
     Some \<lparr>kp_x = 0.55, kp_y = 1, kp_score = 0.9\<rparr>]"

text \<open>Three points on a line, one unit apart.\<close>

definition shoulder_at_origin :: Keypoint where
  "shoulder_at_origin = \<lparr>kp_x = 0, kp_y = 0, kp_score = 1\<rparr>"



text \<open>A straight arm along the line through \<open>(0,0)\<close> and \<open>(2,3)\<close>.\<close>

definition elbow_at_two_three :: Keypoint where
  "elbow_at_two_three = \<lparr>kp_x = 2, kp_y = 3, kp_score = 1\<rparr>"




text \<open>
  A REBA score with Score A 4 and Score B 3, a RULA score with final score 2, and a weight
  estimation of a given number of kilograms.
\<close>

definition reba_base :: REBAScore where
  "reba_base =
    \<lparr>upperArm = 3, lowerArm = 1, wrist = 1, neck = 3, trunk = 2, scoreA = 4, scoreB = 3,
     finalScore = 4, riskLevel = ''Medium'', legs = 2, actionLevel = ''Necessary'',
     neckAngle = 25, trunkAngle = 10, upperArmAngle = 50, lowerArmAngle = 80, wristAngle = 15\<rparr>"

definition rula_base :: PostureScore where
  "rula_base =
    \<lparr>upperArm = 3, lowerArm = 2, wrist = 2, neck = 2, trunk = 2, scoreA = 3, scoreB = 2,
     finalScore = 2, riskLevel = ''Acceptable''\<rparr>"

definition no_posture :: PostureAnalysis where
  "no_posture =
    \<lparr>isLifting = False, isCarrying = False, armPosition = Close, spineDeviation = 0,
     loadDirection = Front\<rparr>"

definition estimate_of :: "real \<Rightarrow> WeightEstimation" where
  "estimate_of kg =
    \<lparr>estimatedWeight = kg, confidence = 1, detectedObjects = [], bodyPosture = no_posture\<rparr>"

section \<open>Auxiliary facts\<close>

subsection \<open>Results of a \<open>let\<close> and of a bind\<close>

lemma Let_SomeE:
  assumes "Let a f = Some r"
  obtains v where "v = a" and "f v = Some r"
  using assms by simp

lemma bind_SomeE:
  assumes "Option.bind m f = Some r"
  obtains v where "m = Some v" and "f v = Some r"
  using assms by (cases m) auto

subsection \<open>Reads inside a table\<close>

lemma js_nth_inside:
  assumes "0 \<le> i" and "i < int (length xs)"
  shows "js_nth xs i = Some (xs ! nat i)" and "xs ! nat i \<in> set xs"
  using assms by (simp_all add: js_nth_def)

lemma js_row_inside:
  assumes "0 \<le> i" and "i < int (length t)" and "0 \<le> j"
    and "\<forall>row\<in>set t. j < int (length row)"
  shows "nat i < length t" and "nat j < length (t ! nat i)"
proof -
  show "nat i < length t" using assms by simp
  then have "t ! nat i \<in> set t" by simp
  then have "j < int (length (t ! nat i))" using assms(4) by blast
  then show "nat j < length (t ! nat i)" using assms(3) by simp
qed

lemma js_index2_inside:
  assumes "0 \<le> i" and "i < int (length t)" and "0 \<le> j"
    and "\<forall>row\<in>set t. j < int (length row)"
  shows "js_index2 t i j = Inr (t ! nat i ! nat j)"
  using assms js_row_inside[OF assms] by (simp add: js_index2_def js_nth_def)

lemma js_opt_index2_inside:
  assumes "0 \<le> i" and "i < int (length t)" and "0 \<le> j"
    and "\<forall>row\<in>set t. j < int (length row)"
  shows "js_opt_index2 t i j = Some (t ! nat i ! nat j)"
  using assms js_row_inside[OF assms] by (simp add: js_opt_index2_def js_nth_def)

subsection \<open>The RULA final lookup and the final score of REBA\<close>

lemma finalScoreTable_shape:
  "length finalScoreTable = 8" 
  "\<forall>row\<in>set finalScoreTable. length row = 7 \<and> (\<forall>v\<in>set row. 1 \<le> v \<and> v \<le> 7)"
  by (simp_all add: finalScoreTable_def)

lemma getFinalScore_rula_range: "\<exists>v. getFinalScore_rula a b = Inr v \<and> 1 \<le> v \<and> v \<le> 7"
proof -
  define i where "i = max 0 (min 7 (a - 1))"
  define j where "j = max 0 (min 6 (b - 1))"
  have i: "0 \<le> i" "i < int (length finalScoreTable)" and j: "0 \<le> j" "j < 7"
    by (simp_all add: i_def j_def finalScoreTable_shape)
  have rows: "\<forall>row\<in>set finalScoreTable. j < int (length row)"
    using finalScoreTable_shape(2) j by simp
  have "finalScoreTable ! nat i \<in> set finalScoreTable"
    using js_row_inside(1)[OF i j(1) rows] by simp
  moreover have "finalScoreTable ! nat i ! nat j \<in> set (finalScoreTable ! nat i)"
    using js_row_inside(2)[OF i j(1) rows] by simp
  ultimately have "1 \<le> finalScoreTable ! nat i ! nat j \<and> finalScoreTable ! nat i ! nat j \<le> 7"
    using finalScoreTable_shape(2) by blast
  moreover have "getFinalScore_rula a b = Inr (finalScoreTable ! nat i ! nat j)"
    using js_index2_inside[OF i j(1) rows] by (simp add: getFinalScore_rula_def i_def j_def)
  ultimately show ?thesis by blast
qed

lemma getFinalScore_range: "1 \<le> getFinalScore sa sb lc act" "getFinalScore sa sb lc act \<le> 15"
  by (simp_all add: getFinalScore_def Let_def)

subsection \<open>What \<open>calculateREBA\<close> returns\<close>

lemma calculateREBA_SomeD:
  assumes "calculateREBA k = Some r"
  shows "(\<exists>na ka ua. neck r = getNeckScore na False \<and> legs r = getLegsScore ka True
            \<and> upperArm r = getUpperArmScore ua False False False)
    \<and> wrist r = getWristScore 15 False
    \<and> scoreA r = getScoreA (neck r) (trunk r) (legs r)
    \<and> scoreB r = getScoreB (upperArm r) (lowerArm r) (wrist r)
    \<and> finalScore r = getFinalScore (scoreA r) (scoreB r) 0 0
    \<and> wristAngle r = real_of_int (js_round (15 * 10)) / 10"
  using assms unfolding calculateREBA_def
  apply (cases k; simp only: option.case option.distinct split: if_splits)
  apply (elim Let_SomeE bind_SomeE)
  apply clarsimp
  apply blast
  done

lemma getNeckScore_range: "1 \<le> getNeckScore a tw" "getNeckScore a tw \<le> 3"
  by (simp_all add: getNeckScore_def Let_def)

lemma getLegsScore_range: "1 \<le> getLegsScore a spt" "getLegsScore a spt \<le> 3"
  by (simp_all add: getLegsScore_def Let_def)

lemma getUpperArmScore_range: "1 \<le> getUpperArmScore a sr ab su" "getUpperArmScore a sr ab su \<le> 6"
  by (simp_all add: getUpperArmScore_def Let_def)

lemma getWristScore_range: "1 \<le> getWristScore a tw" "getWristScore a tw \<le> 3"
  by (simp_all add: getWristScore_def Let_def)

lemma REBA_TABLE_A_shape:
  "length REBA_TABLE_A = 5"
  "\<forall>row\<in>set REBA_TABLE_A. length row = 4 \<and> (\<forall>v\<in>set row. 1 \<le> v \<and> v \<le> 8)"
  by (simp_all add: REBA_TABLE_A_def)

lemma REBA_TABLE_B_shape:
  "length REBA_TABLE_B = 6"
  "\<forall>row\<in>set REBA_TABLE_B. length row = 3 \<and> (\<forall>v\<in>set row. 1 \<le> v \<and> v \<le> 9)"
  by (simp_all add: REBA_TABLE_B_def)

lemma REBA_TABLE_C_shape:
  "length REBA_TABLE_C = 12"
  "\<forall>row\<in>set REBA_TABLE_C. length row = 12 \<and> (\<forall>v\<in>set row. 1 \<le> v \<and> v \<le> 12)"
  by (simp_all add: REBA_TABLE_C_def)

text \<open>A read inside a table whose rows all have \<open>m\<close> entries between \<open>lo\<close> and \<open>hi\<close>.\<close>

lemma table_entry:
  assumes shape: "\<forall>row\<in>set t. length row = m \<and> (\<forall>v\<in>set row. lo \<le> v \<and> v \<le> hi)"
    and i: "0 \<le> i" "i < int (length t)" and j: "0 \<le> j" "j < int m"
  shows "js_opt_index2 t i j = Some (t ! nat i ! nat j)"
    and "js_index2 t i j = Inr (t ! nat i ! nat j)"
    and "lo \<le> t ! nat i ! nat j \<and> t ! nat i ! nat j \<le> hi"
proof -
  have rows: "\<forall>row\<in>set t. j < int (length row)"
    using shape j by simp
  show "js_opt_index2 t i j = Some (t ! nat i ! nat j)"
    using js_opt_index2_inside[OF i j(1) rows] .
  show "js_index2 t i j = Inr (t ! nat i ! nat j)"
    using js_index2_inside[OF i j(1) rows] .
  have "t ! nat i \<in> set t" and "t ! nat i ! nat j \<in> set (t ! nat i)"
    using js_row_inside[OF i j(1) rows] by simp_all
  then show "lo \<le> t ! nat i ! nat j \<and> t ! nat i ! nat j \<le> hi"
    using shape by blast
qed

lemma getScoreA_inside:
  assumes "1 \<le> n" "n \<le> 5" "1 \<le> l" "l \<le> 4"
  shows "getScoreA n t l = REBA_TABLE_A ! nat (n - 1) ! nat (l - 1)"
    and "1 \<le> getScoreA n t l \<and> getScoreA n t l \<le> 8"
proof -
  have l: "(if l = 1 then 0 else if l = 2 then 1 else min 3 (l - 1)) = l - 1"
    using assms by simp
  have n: "max 0 (min 4 (n - 1)) = n - 1"
    using assms by simp
  note e = table_entry[OF REBA_TABLE_A_shape(2), of "n - 1" "l - 1"]
  have i: "0 \<le> n - 1" "n - 1 < int (length REBA_TABLE_A)" "0 \<le> l - 1" "l - 1 < int 4"
    using assms by (simp_all add: REBA_TABLE_A_shape(1))
  show eq: "getScoreA n t l = REBA_TABLE_A ! nat (n - 1) ! nat (l - 1)"
    using e(1)[OF i] e(3)[OF i] by (simp add: getScoreA_def Let_def l n js_or_def)
  show "1 \<le> getScoreA n t l \<and> getScoreA n t l \<le> 8"
    using e(3)[OF i] by (simp add: eq)
qed

lemma getScoreB_inside:
  assumes "1 \<le> u" "u \<le> 6" "1 \<le> w" "w \<le> 3"
  shows "getScoreB u l w = REBA_TABLE_B ! nat (u - 1) ! nat (w - 1)"
    and "1 \<le> getScoreB u l w \<and> getScoreB u l w \<le> 9"
proof -
  have u: "max 0 (min 5 (u - 1)) = u - 1" and w: "max 0 (min 2 (w - 1)) = w - 1"
    using assms by simp_all
  note e = table_entry[OF REBA_TABLE_B_shape(2), of "u - 1" "w - 1"]
  have i: "0 \<le> u - 1" "u - 1 < int (length REBA_TABLE_B)" "0 \<le> w - 1" "w - 1 < int 3"
    using assms by (simp_all add: REBA_TABLE_B_shape(1))
  show eq: "getScoreB u l w = REBA_TABLE_B ! nat (u - 1) ! nat (w - 1)"
    using e(1)[OF i] e(3)[OF i] by (simp add: getScoreB_def Let_def u w js_or_def)
  show "1 \<le> getScoreB u l w \<and> getScoreB u l w \<le> 9"
    using e(3)[OF i] by (simp add: eq)
qed

lemma getFinalScore_inside:
  assumes "1 \<le> a" "a \<le> 12" "1 \<le> b" "b \<le> 12"
  shows "getFinalScore a b 0 0 = REBA_TABLE_C ! nat (a - 1) ! nat (b - 1)"
proof -
  have a: "max 0 (min 11 (a - 1)) = a - 1" and b: "max 0 (min 11 (b - 1)) = b - 1"
    using assms by simp_all
  note e = table_entry[OF REBA_TABLE_C_shape(2), of "a - 1" "b - 1"]
  have i: "0 \<le> a - 1" "a - 1 < int (length REBA_TABLE_C)" "0 \<le> b - 1" "b - 1 < int 12"
    using assms by (simp_all add: REBA_TABLE_C_shape(1))
  show ?thesis
    using e(1)[OF i] e(3)[OF i] by (simp add: getFinalScore_def Let_def a b js_or_def)
qed

lemma calculateREBA_returns:
  assumes "17 \<le> length kps"
    and "\<forall>i\<in>{0, 5, 6, 7, 8, 9, 10, 11, 12}. js_elem kps i \<noteq> None"
  shows "\<exists>r. calculateREBA (Some kps) = Some r"
proof -
  from assms(2) obtain n ls rs le re lw rw lh rh where
    "js_elem kps 0 = Some n" "js_elem kps 5 = Some ls" "js_elem kps 6 = Some rs"
    "js_elem kps 7 = Some le" "js_elem kps 8 = Some re" "js_elem kps 9 = Some lw"
    "js_elem kps 10 = Some rw" "js_elem kps 11 = Some lh" "js_elem kps 12 = Some rh"
    by auto
  with assms(1) show ?thesis
    by (simp add: calculateREBA_def Let_def)
qed

lemma standing_elems:
  "17 \<le> length standing"
  "\<forall>i\<in>{0, 5, 6, 7, 8, 9, 10, 11, 12}. js_elem standing i \<noteq> None"
  by (simp_all add: standing_def js_elem_def js_nth_def)

lemma scoreATable_shape:
  "length scoreATable = 6"
  "\<forall>plane\<in>set scoreATable. length plane = 3 \<and> (\<forall>row\<in>set plane. length row = 8 \<and> (\<forall>v\<in>set row. 1 \<le> v \<and> v \<le> 8))"
  by (simp_all add: scoreATable_def)

lemma scoreBTable_shape:
  "length scoreBTable = 6"
  "\<forall>row\<in>set scoreBTable. length row = 6 \<and> (\<forall>v\<in>set row. 1 \<le> v \<and> v \<le> 7)"
  by (simp_all add: scoreBTable_def)

lemma getScoreA_rula_returns: "\<exists>v. getScoreA_rula u l w = Inr v \<and> 1 \<le> v \<and> v \<le> 8"
proof -
  define i where "i = max 0 (min 5 (u - 1))"
  define j where "j = max 0 (min 2 (l - 1))"
  define k where "k = max 0 (min 7 (w - 1))"
  have i: "0 \<le> i" "i < int (length scoreATable)"
    by (simp_all add: i_def scoreATable_shape(1))
  then have plane: "js_nth scoreATable i = Some (scoreATable ! nat i)"
    and mem: "scoreATable ! nat i \<in> set scoreATable"
    by (simp_all add: js_nth_inside)
  from mem scoreATable_shape(2)
  have len: "length (scoreATable ! nat i) = 3"
    and shape: "\<forall>row\<in>set (scoreATable ! nat i). length row = 8 \<and> (\<forall>v\<in>set row. 1 \<le> v \<and> v \<le> 8)"
    by blast+
  have jk: "0 \<le> j" "j < int (length (scoreATable ! nat i))" "0 \<le> k" "k < int 8"
    by (simp_all add: j_def k_def len)
  note e = table_entry[OF shape jk]
  have "getScoreA_rula u l w = Inr (scoreATable ! nat i ! nat j ! nat k)"
    using plane e(2) by (simp add: getScoreA_rula_def i_def j_def k_def)
  with e(3) show ?thesis by blast
qed

lemma getScoreB_rula_returns: "\<exists>v. getScoreB_rula n t = Inr v \<and> 1 \<le> v \<and> v \<le> 7"
proof -
  define i where "i = max 0 (min 5 (n - 1))"
  define j where "j = max 0 (min 5 (t - 1))"
  have ij: "0 \<le> i" "i < int (length scoreBTable)" "0 \<le> j" "j < int 6"
    by (simp_all add: i_def j_def scoreBTable_shape(1))
  note e = table_entry[OF scoreBTable_shape(2) ij]
  have "getScoreB_rula n t = Inr (scoreBTable ! nat i ! nat j)"
    using e(2) by (simp add: getScoreB_rula_def i_def j_def)
  with e(3) show ?thesis by blast
qed

lemma calculateREBA_lookups:
  assumes "calculateREBA pose = Some r"
  shows "1 \<le> neck r \<and> neck r \<le> 5 \<and> 1 \<le> legs r \<and> legs r \<le> 4
         \<and> scoreA r = REBA_TABLE_A ! nat (neck r - 1) ! nat (legs r - 1)"
    and "1 \<le> upperArm r \<and> upperArm r \<le> 6 \<and> 1 \<le> wrist r \<and> wrist r \<le> 3
         \<and> scoreB r = REBA_TABLE_B ! nat (upperArm r - 1) ! nat (wrist r - 1)"
    and "1 \<le> scoreA r \<and> scoreA r \<le> 12 \<and> 1 \<le> scoreB r \<and> scoreB r \<le> 12
         \<and> finalScore r = REBA_TABLE_C ! nat (scoreA r - 1) ! nat (scoreB r - 1)"
proof -
  from calculateREBA_SomeD[OF assms] obtain na ka ua where
    parts: "neck r = getNeckScore na False" "legs r = getLegsScore ka True"
      "upperArm r = getUpperArmScore ua False False False" "wrist r = getWristScore 15 False"
    and groups: "scoreA r = getScoreA (neck r) (trunk r) (legs r)"
      "scoreB r = getScoreB (upperArm r) (lowerArm r) (wrist r)"
      "finalScore r = getFinalScore (scoreA r) (scoreB r) 0 0"
    by blast
  have n: "1 \<le> neck r" "neck r \<le> 5" and l: "1 \<le> legs r" "legs r \<le> 4"
    using getNeckScore_range[of na False] getLegsScore_range[of ka True] parts by simp_all
  have u: "1 \<le> upperArm r" "upperArm r \<le> 6" and w: "1 \<le> wrist r" "wrist r \<le> 3"
    using getUpperArmScore_range[of ua False False False] getWristScore_range[of 15 False] parts
    by simp_all
  note a = getScoreA_inside[OF n l, of "trunk r"]
  note b = getScoreB_inside[OF u w, of "lowerArm r"]
  show "1 \<le> neck r \<and> neck r \<le> 5 \<and> 1 \<le> legs r \<and> legs r \<le> 4
         \<and> scoreA r = REBA_TABLE_A ! nat (neck r - 1) ! nat (legs r - 1)"
    using n l a(1) groups(1) by simp
  show "1 \<le> upperArm r \<and> upperArm r \<le> 6 \<and> 1 \<le> wrist r \<and> wrist r \<le> 3
         \<and> scoreB r = REBA_TABLE_B ! nat (upperArm r - 1) ! nat (wrist r - 1)"
    using u w b(1) groups(2) by simp
  have sa: "1 \<le> scoreA r" "scoreA r \<le> 12" and sb: "1 \<le> scoreB r" "scoreB r \<le> 12"
    using a(2) b(2) groups by simp_all
  show "1 \<le> scoreA r \<and> scoreA r \<le> 12 \<and> 1 \<le> scoreB r \<and> scoreB r \<le> 12
         \<and> finalScore r = REBA_TABLE_C ! nat (scoreA r - 1) ! nat (scoreB r - 1)"
    using sa sb getFinalScore_inside[OF sa sb] groups(3) by simp
qed

subsection \<open>Rounding to a double\<close>

lemma round_even_near: "\<bar>of_int (round_even r) - r\<bar> \<le> 1 / 2"
  unfolding round_even_def Let_def by (auto; linarith)

lemma round_even_eqI:
  assumes "\<bar>r - of_int m\<bar> < 1 / 2"
  shows "round_even r = m"
proof -
  have "\<lfloor>r\<rfloor> = m \<or> \<lfloor>r\<rfloor> = m - 1"
    using assms by (auto simp: floor_eq_iff; linarith)
  then show ?thesis
    using assms unfolding round_even_def Let_def by (auto; linarith)
qed

lemma round_even_sign:
  "0 \<le> r \<Longrightarrow> 0 \<le> round_even r" "r \<le> 0 \<Longrightarrow> round_even r \<le> 0"
proof -
  assume "0 \<le> r"
  then have "0 \<le> \<lfloor>r\<rfloor>" by simp
  then show "0 \<le> round_even r"
    unfolding round_even_def Let_def by auto
next
  assume r: "r \<le> 0"
  show "round_even r \<le> 0"
  proof (cases "r = 0")
    case True
    then show ?thesis by (simp add: round_even_def)
  next
    case False
    with r have "r < 0" by simp
    then have "\<lfloor>r\<rfloor> \<le> - 1" by (simp add: floor_le_iff)
    then show ?thesis
      unfolding round_even_def Let_def by auto
  qed
qed

lemma ulp_pos: "0 < ulp x"
  by (simp add: ulp_def)

lemma ulp_le:
  assumes "x \<noteq> 0"
  shows "ulp x \<le> \<bar>x\<bar> / 2 ^ 52 + 1 / 2 ^ 1074"
proof -
  define f where "f = \<lfloor>log 2 \<bar>x\<bar>\<rfloor>"
  have pos: "0 < \<bar>x\<bar>" using assms by simp
  have le: "2 powr of_int f \<le> \<bar>x\<bar>"
    using floor_log_eq_powr_iff[OF pos, of 2 f] by (simp add: f_def)
  show ?thesis
  proof (cases "- 1022 \<le> f")
    case True
    then have "max \<lfloor>log 2 \<bar>x\<bar>\<rfloor> (- 1022) = f"
      by (simp add: f_def)
    then have "ulp x = 2 powr of_int (f - 52)"
      unfolding ulp_def by (simp only:)
    also have "\<dots> = 2 powr of_int f / 2 ^ 52"
      by (simp add: powr_diff)
    also have "\<dots> \<le> \<bar>x\<bar> / 2 ^ 52"
      using le by (simp add: divide_right_mono)
    finally show ?thesis
      by (rule add_increasing2[rotated]) simp
  next
    case False
    then have "max \<lfloor>log 2 \<bar>x\<bar>\<rfloor> (- 1022) = - 1022"
      by (simp add: f_def)
    then have "ulp x = 2 powr of_int (- 1022 - 52)"
      unfolding ulp_def by (simp only:)
    also have "\<dots> = 1 / 2 ^ 1074"
      by (simp add: powr_minus_divide)
    finally have "ulp x \<le> 1 / 2 ^ 1074"
      by (rule eq_refl)
    then show ?thesis
      by (rule add_increasing[rotated]) simp
  qed
qed

lemma nearest_double_sign:
  "0 \<le> x \<Longrightarrow> not_negative (nearest_double x)"
  "x \<le> 0 \<Longrightarrow> not_positive (nearest_double x)"
proof -
  assume x: "0 \<le> x"
  then have "0 \<le> x / ulp x"
    using ulp_pos[of x] by simp
  then have "0 \<le> real_of_int (round_even (x / ulp x)) * ulp x"
    using round_even_sign(1) ulp_pos[of x] by simp
  then show "not_negative (nearest_double x)"
    unfolding nearest_double_def Let_def by simp
next
  assume x: "x \<le> 0"
  then have "x / ulp x \<le> 0"
    using ulp_pos[of x] by (simp add: divide_le_0_iff)
  then have "real_of_int (round_even (x / ulp x)) * ulp x \<le> 0"
    using round_even_sign(2) ulp_pos[of x] by (simp add: mult_le_0_iff)
  moreover have "(0::real) < 2 ^ 1024"
    by (rule zero_less_power) simp
  ultimately have "\<not> 2 ^ 1024 \<le> real_of_int (round_even (x / ulp x)) * ulp x"
    by linarith
  with \<open>real_of_int (round_even (x / ulp x)) * ulp x \<le> 0\<close>
  show "not_positive (nearest_double x)"
    unfolding nearest_double_def Let_def by simp
qed

lemma nearest_double_close:
  assumes "\<bar>x\<bar> \<le> 2 ^ 1000"
  shows "\<exists>y. nearest_double x = Number y \<and> \<bar>y - x\<bar> \<le> \<bar>x\<bar> / 2 ^ 53 + 1 / 2 ^ 1075
           \<and> (0 \<le> x \<longrightarrow> 0 \<le> y) \<and> (x \<le> 0 \<longrightarrow> y \<le> 0)"
proof (cases "x = 0")
  case True
  then show ?thesis
    by (simp add: nearest_double_def)
next
  case False
  define u where "u = ulp x"
  define y where "y = real_of_int (round_even (x / u)) * u"
  have u: "0 < u"
    by (simp add: u_def ulp_pos)
  have "\<bar>real_of_int (round_even (x / u)) - x / u\<bar> * u \<le> 1 / 2 * u"
    using round_even_near[of "x / u"] u by (simp only: mult_le_cancel_right_pos)
  moreover have "(real_of_int (round_even (x / u)) - x / u) * u = y - x"
    using u by (simp add: y_def left_diff_distrib)
  then have "\<bar>real_of_int (round_even (x / u)) - x / u\<bar> * u = \<bar>y - x\<bar>"
    using u by (metis abs_mult abs_of_pos)
  ultimately have near: "\<bar>y - x\<bar> \<le> u / 2"
    by simp
  have ule: "u \<le> \<bar>x\<bar> / 2 ^ 52 + 1 / 2 ^ 1074"
    using ulp_le[OF False] by (simp add: u_def)
  have close: "\<bar>y - x\<bar> \<le> \<bar>x\<bar> / 2 ^ 53 + 1 / 2 ^ 1075"
    using near ule by simp
  have "\<bar>y\<bar> \<le> \<bar>x\<bar> + (\<bar>x\<bar> / 2 ^ 53 + 1 / 2 ^ 1075)"
    using close by linarith
  also have "\<dots> < 2 ^ 1024"
    using assms by simp
  finally have fin: "\<not> 2 ^ 1024 \<le> y" "\<not> y \<le> - (2 ^ 1024)"
    by linarith+
  have val: "nearest_double x = Number y"
    using False fin unfolding nearest_double_def Let_def y_def u_def by (simp only: if_False)
  have "0 \<le> x \<longrightarrow> 0 \<le> y" "x \<le> 0 \<longrightarrow> y \<le> 0"
    using nearest_double_sign[of x] val by auto
  with val close show ?thesis
    by blast
qed

lemma ulp_eqI:
  assumes "2 powr real_of_int e \<le> \<bar>x\<bar>" and "\<bar>x\<bar> < 2 powr real_of_int (e + 1)" and "- 1022 \<le> e"
  shows "ulp x = 2 powr real_of_int (e - 52)"
proof -
  have "(0::real) < 2 powr real_of_int e"
    by simp
  then have "0 < \<bar>x\<bar>"
    using assms(1) by (rule less_le_trans)
  then have "\<lfloor>log 2 \<bar>x\<bar>\<rfloor> = e"
    using assms(1,2) by (simp add: floor_log_eq_powr_iff)
  then show ?thesis
    using assms(3) by (simp add: ulp_def)
qed

lemma nearest_double_eqI:
  assumes "2 powr real_of_int e \<le> \<bar>x\<bar>" and "\<bar>x\<bar> < 2 powr real_of_int (e + 1)" and "- 1022 \<le> e"
    and "u = 2 powr real_of_int (e - 52)"
    and "\<bar>x / u - real_of_int m\<bar> < 1 / 2"
    and "\<bar>real_of_int m * u\<bar> < 2 ^ 1024"
  shows "nearest_double x = Number (real_of_int m * u)"
proof -
  have u: "ulp x = u"
    using ulp_eqI[OF assms(1-3)] assms(4) by simp
  have "(0::real) < 2 powr real_of_int e"
    by simp
  then have "0 < \<bar>x\<bar>"
    using assms(1) by (rule less_le_trans)
  then have x: "x \<noteq> 0"
    by simp
  have r: "round_even (x / u) = m"
    using assms(5) by (rule round_even_eqI)
  have "\<not> 2 ^ 1024 \<le> real_of_int m * u" "\<not> real_of_int m * u \<le> - (2 ^ 1024)"
    using assms(6) by linarith+
  then show ?thesis
    using x unfolding nearest_double_def Let_def u r by (simp only: if_False)
qed




lemma nearest_double_small:
  "nearest_double 1 = Number 1"
  "nearest_double 2 = Number 2"
  "nearest_double 3 = Number 3"
  "nearest_double 4 = Number 4"
  "nearest_double 9 = Number 9"
  "nearest_double 13 = Number 13"
  using nearest_double_eqI[where x = 1 and e = 0 and m = "2 ^ 52" and u = "1 / 2 ^ 52"]
    nearest_double_eqI[where x = 2 and e = 1 and m = "2 ^ 52" and u = "1 / 2 ^ 51"]
    nearest_double_eqI[where x = 3 and e = 1 and m = "3 * 2 ^ 51" and u = "1 / 2 ^ 51"]
    nearest_double_eqI[where x = 4 and e = 2 and m = "2 ^ 52" and u = "1 / 2 ^ 50"]
    nearest_double_eqI[where x = 9 and e = 3 and m = "9 * 2 ^ 49" and u = "1 / 2 ^ 49"]
    nearest_double_eqI[where x = 13 and e = 3 and m = "13 * 2 ^ 49" and u = "1 / 2 ^ 49"]
  by (simp_all add: powr_minus_divide)

lemma sqrt13_bounds:
  "16237959380644837 / 4503599627370496 < sqrt 13"
  "sqrt 13 < 16237959380644839 / 4503599627370496"
proof -
  show "16237959380644837 / 4503599627370496 < sqrt 13"
    by (rule real_less_rsqrt) (simp add: power2_eq_square)
  show "sqrt 13 < 16237959380644839 / 4503599627370496"
    by (rule real_less_lsqrt) (simp_all add: power2_eq_square)
qed

lemma nearest_double_sqrt13:
  "nearest_double (sqrt 13) = Number (8118979690322419 / 2 ^ 51)"
proof -
  define r where "r = sqrt 13"
  have b: "16237959380644837 / 4503599627370496 < r" "r < 16237959380644839 / 4503599627370496"
    unfolding r_def by (rule sqrt13_bounds)+
  have binade: "2 powr real_of_int 1 \<le> \<bar>r\<bar>" "\<bar>r\<bar> < 2 powr real_of_int (1 + 1)"
    using b by simp_all
  have "- 1 < r * 4503599627370496 - 16237959380644838"
    "r * 4503599627370496 - 16237959380644838 < 1"
    using b by (simp_all add: field_simps)
  then have near: "\<bar>r / (1 / 2 ^ 51) - real_of_int 8118979690322419\<bar> < 1 / 2"
    by (simp, argo)
  have "nearest_double r = Number (real_of_int 8118979690322419 * (1 / 2 ^ 51))"
    by (rule nearest_double_eqI[OF binade _ _ near]) (simp_all add: powr_minus_divide)
  then show ?thesis
    by (simp add: r_def)
qed

lemma nearest_double_square:
  "nearest_double ((8118979690322419 / 2 ^ 51) * (8118979690322419 / 2 ^ 51))
     = Number (7318349394477055 / 2 ^ 49)"
  using nearest_double_eqI[where x = "(8118979690322419 / 2 ^ 51) * (8118979690322419 / 2 ^ 51)"
      and e = 3 and m = 7318349394477055 and u = "1 / 2 ^ 49"]
  by (simp add: powr_minus_divide)


lemma nearest_double_small_negative:
  "nearest_double (- 2) = Number (- 2)"
  "nearest_double (- 3) = Number (- 3)"
  "nearest_double (- 4) = Number (- 4)"
  "nearest_double (- 9) = Number (- 9)"
  "nearest_double (- 13) = Number (- 13)"
  using nearest_double_eqI[where x = "- 2" and e = 1 and m = "- (2 ^ 52)" and u = "1 / 2 ^ 51"]
    nearest_double_eqI[where x = "- 3" and e = 1 and m = "- (3 * 2 ^ 51)" and u = "1 / 2 ^ 51"]
    nearest_double_eqI[where x = "- 4" and e = 2 and m = "- (2 ^ 52)" and u = "1 / 2 ^ 50"]
    nearest_double_eqI[where x = "- 9" and e = 3 and m = "- (9 * 2 ^ 49)" and u = "1 / 2 ^ 49"]
    nearest_double_eqI[where x = "- 13" and e = 3 and m = "- (13 * 2 ^ 49)" and u = "1 / 2 ^ 49"]
  by (simp_all add: powr_minus_divide)

lemma nearest_double_quotient_negative:
  "nearest_double (- 13 / (7318349394477055 / 2 ^ 49)) = Number (- (4503599627370497 / 2 ^ 52))"
  using nearest_double_eqI[where x = "- 13 / (7318349394477055 / 2 ^ 49)"
      and e = 0 and m = "- 4503599627370497" and u = "1 / 2 ^ 52"]
  by (simp add: powr_minus_divide)





subsection \<open>Bounds of \<open>pi\<close>, of the cosine and of the arc cosine\<close>

text \<open>The bound of \<open>pi\<close> is from Machin's formula and two bounds of the arc tangent.\<close>

lemma arctan_upper:
  fixes x :: real
  assumes "0 \<le> x"
  shows "arctan x \<le> x - x ^ 3 / 3 + x ^ 5 / 5"
proof -
  define f where "f = (\<lambda>t::real. t - t ^ 3 / 3 + t ^ 5 / 5 - arctan t)"
  have "f 0 \<le> f x"
  proof (rule DERIV_nonneg_imp_nondecreasing[OF assms])
    fix t :: real
    assume "0 \<le> t"
    have d: "(f has_real_derivative (1 - t ^ 2 + t ^ 4 - 1 / (1 + t ^ 2))) (at t)"
      unfolding f_def by (auto intro!: derivative_eq_intros simp: field_simps)
    have "(1 - t ^ 2 + t ^ 4) * (1 + t ^ 2) - 1 = t ^ 6"
      by (simp add: algebra_simps power_numeral_reduce)
    then have "1 - t ^ 2 + t ^ 4 - 1 / (1 + t ^ 2) = t ^ 6 / (1 + t ^ 2)"
      by (simp add: field_simps add_nonneg_eq_0_iff)
    moreover have "0 \<le> t ^ 6 / (1 + t ^ 2)"
      by simp
    ultimately have "0 \<le> 1 - t ^ 2 + t ^ 4 - 1 / (1 + t ^ 2)"
      by simp
    with d show "\<exists>y. (f has_real_derivative y) (at t) \<and> 0 \<le> y"
      by blast
  qed
  then show ?thesis
    by (simp add: f_def)
qed

lemma arctan_lower:
  fixes x :: real
  assumes "0 \<le> x"
  shows "x - x ^ 3 / 3 \<le> arctan x"
proof -
  define f where "f = (\<lambda>t::real. arctan t - (t - t ^ 3 / 3))"
  have "f 0 \<le> f x"
  proof (rule DERIV_nonneg_imp_nondecreasing[OF assms])
    fix t :: real
    assume "0 \<le> t"
    have d: "(f has_real_derivative (1 / (1 + t ^ 2) - (1 - t ^ 2))) (at t)"
      unfolding f_def by (auto intro!: derivative_eq_intros simp: field_simps)
    have "1 - (1 - t ^ 2) * (1 + t ^ 2) = t ^ 4"
      by (simp add: algebra_simps power_numeral_reduce)
    then have "1 / (1 + t ^ 2) - (1 - t ^ 2) = t ^ 4 / (1 + t ^ 2)"
      by (simp add: field_simps add_nonneg_eq_0_iff)
    moreover have "0 \<le> t ^ 4 / (1 + t ^ 2)"
      by simp
    ultimately have "0 \<le> 1 / (1 + t ^ 2) - (1 - t ^ 2)"
      by simp
    with d show "\<exists>y. (f has_real_derivative y) (at t) \<and> 0 \<le> y"
      by blast
  qed
  then show ?thesis
    by (simp add: f_def)
qed

lemma pi_upper: "pi < 314163 / 100000"
proof -
  define u :: real where "u = 1 / 5 - (1 / 5) ^ 3 / 3 + (1 / 5) ^ 5 / 5"
  define l :: real where "l = 1 / 239 - (1 / 239) ^ 3 / 3"
  have "arctan (1 / 5) \<le> u"
    unfolding u_def by (rule arctan_upper) simp
  moreover have "l \<le> arctan (1 / 239)"
    unfolding l_def by (rule arctan_lower) simp
  ultimately have "pi / 4 \<le> 4 * u - l"
    unfolding machin by linarith
  moreover have "4 * (4 * u - l) < 314163 / 100000"
    by (simp add: u_def l_def power_numeral_reduce)
  ultimately show ?thesis
    by argo
qed






subsection \<open>Numbers known up to some roundings\<close>

lemma rounding_factors:
  "(0::real) < 1 - 1 / 2 ^ 53" "(1::real) - 1 / 2 ^ 53 \<le> 1" "(1::real) \<le> 1 + 1 / 2 ^ 53"
  by simp_all



lemma rounded_zero:
  assumes "rounded k x 0"
  shows "x = 0"
  using assms by (simp add: rounded_def)












subsection \<open>Signs and ranges of the operations on doubles\<close>






lemma nearest_double_upto:
  assumes "0 \<le> x" and "x \<le> B" and "B \<le> 1000"
  shows "\<exists>y. nearest_double x = Number y \<and> 0 \<le> y \<and> y \<le> B + 1 / 1000000"
proof -
  have "\<bar>x\<bar> \<le> 2 ^ 1000"
    using assms by simp
  from nearest_double_close[OF this] obtain y where
    y: "nearest_double x = Number y" "\<bar>y - x\<bar> \<le> \<bar>x\<bar> / 2 ^ 53 + 1 / 2 ^ 1075" "0 \<le> y"
    using assms(1) by blast
  have "\<bar>x\<bar> / 2 ^ 53 \<le> 1000 / 2 ^ 53"
    using assms by (simp add: divide_right_mono)
  then have "\<bar>y - x\<bar> \<le> 1000 / 2 ^ 53 + 1 / 2 ^ 1075"
    using y(2) by linarith
  also have "\<dots> \<le> 1 / 1000000"
    by simp
  finally have "y \<le> B + 1 / 1000000"
    using assms(2) by linarith
  with y(1,3) show ?thesis
    by blast
qed

lemma Math_acos_range:
  "Math_acos d = NaN \<or> (\<exists>y. Math_acos d = Number y \<and> 0 \<le> y \<and> y \<le> 31417 / 10000)"
proof (cases d)
  case (Number q)
  show ?thesis
  proof (cases "q < - 1 \<or> 1 < q")
    case True
    then show ?thesis
      using Number by simp
  next
    case False
    then have "0 \<le> arccos q" "arccos q \<le> pi"
      using arccos_bounded[of q] by simp_all
    then have "0 \<le> arccos q" "arccos q \<le> 314163 / 100000"
      using pi_upper by linarith+
    from nearest_double_upto[OF this] show ?thesis
      using Number False by auto
  qed
qed simp_all


lemma radians_to_degrees:
  "\<exists>k. div64 (Number 180) Math_PI = Number k \<and> 0 \<le> k \<and> k \<le> 572958 / 10000"
proof -
  have "(0::real) \<le> 180 / (884279719003555 / 281474976710656)"
    "(180::real) / (884279719003555 / 281474976710656) \<le> 5729579 / 100000"
    by simp_all
  from nearest_double_upto[OF this] show ?thesis
    by (auto simp: Math_PI_def)
qed

lemma degrees_range:
  assumes "r = NaN \<or> (\<exists>y. r = Number y \<and> 0 \<le> y \<and> y \<le> Y)" and "0 \<le> Y"
    and "Y * (572958 / 10000) \<le> B" and "B \<le> 1000"
  shows "mul64 r (div64 (Number 180) Math_PI) = NaN
         \<or> (\<exists>z. mul64 r (div64 (Number 180) Math_PI) = Number z \<and> 0 \<le> z \<and> z \<le> B + 1 / 1000000)"
proof -
  obtain k where k: "div64 (Number 180) Math_PI = Number k" "0 \<le> k" "k \<le> 572958 / 10000"
    using radians_to_degrees by blast
  from assms(1) show ?thesis
  proof
    assume "r = NaN"
    then show ?thesis
      by simp
  next
    assume "\<exists>y. r = Number y \<and> 0 \<le> y \<and> y \<le> Y"
    then obtain y where y: "r = Number y" "0 \<le> y" "y \<le> Y"
      by blast
    have "y * k \<le> Y * (572958 / 10000)"
      using y(2,3) k(2,3) assms(2) by (intro mult_mono) simp_all
    then have "0 \<le> y * k" "y * k \<le> B"
      using y(2) k(2) assms(3) by simp_all
    from nearest_double_upto[OF this assms(4)] show ?thesis
      by (simp add: y(1) k(1))
  qed
qed


subsection \<open>The elbow angle\<close>

lemma calculateElbowAngle_Some:
  assumes "a = sub64 (Number (kp_x e)) (Number (kp_x s))"
    and "b = sub64 (Number (kp_y e)) (Number (kp_y s))"
    and "c = sub64 (Number (kp_x w)) (Number (kp_x e))"
    and "d = sub64 (Number (kp_y w)) (Number (kp_y e))"
    and "angle = mul64 (Math_acos (div64 (add64 (mul64 a c) (mul64 b d))
                   (mul64 (Math_sqrt (add64 (sqr64 a) (sqr64 b))) (Math_sqrt (add64 (sqr64 c) (sqr64 d))))))
                   (div64 (Number 180) Math_PI)"
  shows "calculateElbowAngle (Some s) (Some e) (Some w)
           = Some (if isNaN angle then 90 else value_of angle)"
  unfolding calculateElbowAngle_def assms by (simp add: Let_def)

lemma calculateElbowAngle_range:
  "\<exists>r. calculateElbowAngle (Some s) (Some e) (Some w) = Some r \<and> 0 \<le> r \<and> r < 181"
proof -
  define a b c d where "a = sub64 (Number (kp_x e)) (Number (kp_x s))"
    and "b = sub64 (Number (kp_y e)) (Number (kp_y s))"
    and "c = sub64 (Number (kp_x w)) (Number (kp_x e))"
    and "d = sub64 (Number (kp_y w)) (Number (kp_y e))"
  define q where "q = div64 (add64 (mul64 a c) (mul64 b d))
                   (mul64 (Math_sqrt (add64 (sqr64 a) (sqr64 b))) (Math_sqrt (add64 (sqr64 c) (sqr64 d))))"
  define angle where "angle = mul64 (Math_acos q) (div64 (Number 180) Math_PI)"
  have r: "calculateElbowAngle (Some s) (Some e) (Some w)
           = Some (if isNaN angle then 90 else value_of angle)"
    by (rule calculateElbowAngle_Some[OF a_def b_def c_def d_def])
       (simp only: angle_def q_def)
  have "angle = NaN \<or> (\<exists>z. angle = Number z \<and> 0 \<le> z \<and> z \<le> 1809 / 10 + 1 / 1000000)"
    unfolding angle_def by (rule degrees_range[OF Math_acos_range]) simp_all
  then show ?thesis
    unfolding r by (auto simp: isNaN_def)
qed







lemma calculateElbowAngle_rounded_below_minus_one:
  "calculateElbowAngle (Some shoulder_at_origin) (Some elbow_at_two_three)
     (Some shoulder_at_origin) = Some 90"
proof -
  define D :: real where "D = 8118979690322419 / 2 ^ 51"
  define M :: real where "M = 7318349394477055 / 2 ^ 49"
  define Q :: real where "Q = 4503599627370497 / 2 ^ 52"
  have v: "Number 2 = sub64 (Number (kp_x elbow_at_two_three)) (Number (kp_x shoulder_at_origin))"
    "Number 3 = sub64 (Number (kp_y elbow_at_two_three)) (Number (kp_y shoulder_at_origin))"
    "Number (- 2) = sub64 (Number (kp_x shoulder_at_origin)) (Number (kp_x elbow_at_two_three))"
    "Number (- 3) = sub64 (Number (kp_y shoulder_at_origin)) (Number (kp_y elbow_at_two_three))"
    by (simp_all add: shoulder_at_origin_def elbow_at_two_three_def
        nearest_double_small nearest_double_small_negative)
  have dot: "add64 (mul64 (Number 2) (Number (- 2))) (mul64 (Number 3) (Number (- 3)))
               = Number (- 13)"
    by (simp add: nearest_double_small_negative)
  have mag: "Math_sqrt (add64 (sqr64 (Number 2)) (sqr64 (Number 3))) = Number D"
    "Math_sqrt (add64 (sqr64 (Number (- 2))) (sqr64 (Number (- 3)))) = Number D"
    by (simp_all add: sqr64_def nearest_double_small nearest_double_sqrt13 D_def)
  have prod: "mul64 (Number D) (Number D) = Number M"
    unfolding D_def M_def mul64.simps by (rule nearest_double_square)
  have "M \<noteq> 0"
    by (simp add: M_def)
  then have "div64 (Number (- 13)) (Number M) = nearest_double (- 13 / M)"
    by simp
  also have "\<dots> = Number (- Q)"
    unfolding M_def Q_def by (rule nearest_double_quotient_negative)
  finally have quot: "div64 (Number (- 13)) (Number M) = Number (- Q)" .
  have "- Q < - 1"
    by (simp add: Q_def)
  then have "Math_acos (Number (- Q)) = NaN"
    by simp
  then show ?thesis
    unfolding calculateElbowAngle_Some[OF v refl] dot mag prod quot
    by (simp add: isNaN_def)
qed







subsection \<open>The posture analysis returns\<close>

lemma calculateElbowAngle_returns:
  "\<exists>a. calculateElbowAngle (Some s) (Some e) (Some w) = Some a"
  using calculateElbowAngle_range by blast

lemma analyzePosture_short:
  assumes "length kps < 17"
  shows "analyzePosture kps =
    Some \<lparr>isLifting = False, isCarrying = False, armPosition = Close, spineDeviation = 0,
          loadDirection = Front\<rparr>"
  using assms by (simp add: analyzePosture_def)

lemma analyzePosture_returns: "\<exists>p. analyzePosture kps = Some p"
proof (cases "17 \<le> length kps \<and> js_elem kps 5 \<noteq> None \<and> js_elem kps 6 \<noteq> None
    \<and> js_elem kps 9 \<noteq> None \<and> js_elem kps 10 \<noteq> None \<and> js_elem kps 7 \<noteq> None
    \<and> js_elem kps 8 \<noteq> None")
  case False
  then show ?thesis
    by (auto simp: analyzePosture_def Let_def)
next
  case True
  then obtain ls rs lw rw le re where
    k: "js_elem kps 5 = Some ls" "js_elem kps 6 = Some rs" "js_elem kps 9 = Some lw"
      "js_elem kps 10 = Some rw" "js_elem kps 7 = Some le" "js_elem kps 8 = Some re"
    by auto
  obtain la ra where
    a: "calculateElbowAngle (Some ls) (Some le) (Some lw) = Some la"
      "calculateElbowAngle (Some rs) (Some re) (Some rw) = Some ra"
    using calculateElbowAngle_returns by blast
  from True have len: "17 \<le> length kps"
    by simp
  show ?thesis
    by (cases "js_elem kps 11"; cases "js_elem kps 12")
       (simp_all add: analyzePosture_def Let_def k a len)
qed

lemma calculateWeightFromPosture_returns: "\<exists>v. calculateWeightFromPosture p kps = Some v"
proof (cases "js_elem kps 5 \<noteq> None \<and> js_elem kps 6 \<noteq> None
    \<and> js_elem kps 7 \<noteq> None \<and> js_elem kps 8 \<noteq> None \<and> js_elem kps 9 \<noteq> None
    \<and> js_elem kps 10 \<noteq> None")
  case False
  then show ?thesis
    by (auto simp: calculateWeightFromPosture_def Let_def)
next
  case True
  then obtain ls rs lw rw le re where
    k: "js_elem kps 5 = Some ls" "js_elem kps 6 = Some rs" "js_elem kps 9 = Some lw"
      "js_elem kps 10 = Some rw" "js_elem kps 7 = Some le" "js_elem kps 8 = Some re"
    by auto
  obtain la ra where
    a: "calculateElbowAngle (Some ls) (Some le) (Some lw) = Some la"
      "calculateElbowAngle (Some rs) (Some re) (Some rw) = Some ra"
    using calculateElbowAngle_returns by blast
  show ?thesis
    by (simp add: calculateWeightFromPosture_def Let_def k a)
qed

text \<open>The standing pose: the wrists hang below the shoulders, no flag is set.\<close>

lemma standing_arms:
  "js_elem standing 5 = Some \<lparr>kp_x = 0.4, kp_y = 0.3, kp_score = 0.9\<rparr>"
  "js_elem standing 6 = Some \<lparr>kp_x = 0.6, kp_y = 0.3, kp_score = 0.9\<rparr>"
  "js_elem standing 7 = Some \<lparr>kp_x = 0.4, kp_y = 0.5, kp_score = 0.9\<rparr>"
  "js_elem standing 8 = Some \<lparr>kp_x = 0.6, kp_y = 0.5, kp_score = 0.9\<rparr>"
  "js_elem standing 9 = Some \<lparr>kp_x = 0.4, kp_y = 0.7, kp_score = 0.9\<rparr>"
  "js_elem standing 10 = Some \<lparr>kp_x = 0.6, kp_y = 0.7, kp_score = 0.9\<rparr>"
  "js_elem standing 11 = Some \<lparr>kp_x = 0.45, kp_y = 0.6, kp_score = 0.9\<rparr>"
  "js_elem standing 12 = Some \<lparr>kp_x = 0.55, kp_y = 0.6, kp_score = 0.9\<rparr>"
  by (simp_all add: standing_def js_elem_def js_nth_def)

lemma analyzePosture_standing:
  "analyzePosture standing =
    Some \<lparr>isLifting = False, isCarrying = False, armPosition = Close, spineDeviation = 0,
          loadDirection = Front\<rparr>"
proof -
  obtain la ra where
    a: "calculateElbowAngle (js_elem standing 5) (js_elem standing 7) (js_elem standing 9) = Some la"
      "calculateElbowAngle (js_elem standing 6) (js_elem standing 8) (js_elem standing 10) = Some ra"
    unfolding standing_arms using calculateElbowAngle_returns by blast
  show ?thesis
    unfolding analyzePosture_def
    by (simp only: Let_def a) (simp add: standing_arms standing_elems(1))
qed

lemma calculateWeightFromPosture_nothing:
  "calculateWeightFromPosture
     \<lparr>isLifting = False, isCarrying = False, armPosition = Close, spineDeviation = 0,
      loadDirection = Front\<rparr> kps = Some 0"
  by (simp add: calculateWeightFromPosture_def)

lemma estimate_posture:
  assumes "estimateWeightFromPosture kps = Some est"
  shows "analyzePosture kps = Some (bodyPosture est)"
  using assms unfolding estimateWeightFromPosture_def
  by (elim bind_SomeE Let_SomeE) auto


subsection \<open>The adjusted scores\<close>

lemma scoreMatrix_is_TABLE_C: "scoreMatrix = REBA_TABLE_C"
  by (simp add: scoreMatrix_def REBA_TABLE_C_def)

lemma getRebaFinalScore_eq:
  "getRebaFinalScore a b =
     Inr (REBA_TABLE_C ! nat (min (max (a - 1) 0) 11) ! nat (min (max (b - 1) 0) 11))"
  and "1 \<le> REBA_TABLE_C ! nat (min (max (a - 1) 0) 11) ! nat (min (max (b - 1) 0) 11)
       \<and> REBA_TABLE_C ! nat (min (max (a - 1) 0) 11) ! nat (min (max (b - 1) 0) 11) \<le> 12"
proof -
  have ij: "0 \<le> min (max (a - 1) 0) 11" "min (max (a - 1) 0) 11 < int (length REBA_TABLE_C)"
    "0 \<le> min (max (b - 1) 0) 11" "min (max (b - 1) 0) 11 < int 12"
    by (simp_all add: REBA_TABLE_C_shape(1))
  note e = table_entry[OF REBA_TABLE_C_shape(2) ij]
  show "getRebaFinalScore a b =
     Inr (REBA_TABLE_C ! nat (min (max (a - 1) 0) 11) ! nat (min (max (b - 1) 0) 11))"
    using e(2) by (simp add: getRebaFinalScore_def scoreMatrix_is_TABLE_C)
  show "1 \<le> REBA_TABLE_C ! nat (min (max (a - 1) 0) 11) ! nat (min (max (b - 1) 0) 11)
       \<and> REBA_TABLE_C ! nat (min (max (a - 1) 0) 11) ! nat (min (max (b - 1) 0) 11) \<le> 12"
    using e(3) .
qed

lemma calculateWeightAdjustedReba_Some:
  assumes "ew = js_or mw (estimatedWeight we)"
    and "m = (if ew \<le> 5 then 1.0 else if ew \<le> 10 then 1.1 else if ew \<le> 20 then 1.3
              else if ew \<le> 40 then 1.5 else 1.8)"
    and "a = min 12 (js_round (real_of_int (scoreA r) * m))"
    and "b = min 12 (js_round (real_of_int (scoreB r) * m))"
    and "f = min 15 (REBA_TABLE_C ! nat (min (max (a - 1) 0) 11) ! nat (min (max (b - 1) 0) 11))"
  shows "calculateWeightAdjustedReba (Some r) we mw =
    Inr (Some \<lparr>spread = r\<lparr>scoreA := a, scoreB := b, finalScore := f,
                              riskLevel := getRebaRiskLevel f,
                              actionLevel := getRebaActionLevel f\<rparr>,
               effectiveWeight = ew, weightMultiplier = m, isWeightAdjusted = Some True\<rparr>)"
  unfolding calculateWeightAdjustedReba_def
  by (simp only: option.case Let_def getRebaFinalScore_eq(1) sum.case assms)

lemma calculateWeightAdjustedRula_Some:
  assumes "ew = js_or (Some (js_or mw (estimatedWeight we))) 0"
    and "m = (if ew > 23 then 3 else if ew > 10 then 2 else if ew > 5 then 1.5 else 1)"
    and "f = min 7 \<lceil>real_of_int (finalScore r) * m\<rceil>"
  shows "calculateWeightAdjustedRula (Some r) we mw =
    Some \<lparr>spread = r\<lparr>finalScore := f,
                         riskLevel := (if f \<le> 2 then ''Low Risk''
                                       else if f \<le> 4 then ''Medium Risk''
                                       else if f \<le> 6 then ''High Risk''
                                       else ''Critical Risk'')\<rparr>,
          effectiveWeight = ew, weightMultiplier = m, isWeightAdjusted = None\<rparr>"
  unfolding calculateWeightAdjustedRula_def
  by (simp only: option.case Let_def assms)

lemma REBA_TABLE_C_rows_sorted: "\<forall>row\<in>set REBA_TABLE_C. sorted row"
  by (simp add: REBA_TABLE_C_def)

lemma REBA_TABLE_C_rows_increase: "sorted_wrt (list_all2 (\<le>)) REBA_TABLE_C"
  by (simp add: REBA_TABLE_C_def)

lemma REBA_TABLE_C_mono:
  assumes "i \<le> i'" and "i' < 12" and "j \<le> j'" and "j' < 12"
  shows "REBA_TABLE_C ! i ! j \<le> REBA_TABLE_C ! i' ! j'"
proof -
  have len: "length REBA_TABLE_C = 12"
    by (rule REBA_TABLE_C_shape(1))
  have row: "REBA_TABLE_C ! i' \<in> set REBA_TABLE_C"
    using assms(2) len by simp
  then have len': "length (REBA_TABLE_C ! i') = 12"
    using REBA_TABLE_C_shape(2) by blast
  have "REBA_TABLE_C ! i ! j \<le> REBA_TABLE_C ! i' ! j"
  proof (cases "i = i'")
    case True
    then show ?thesis by simp
  next
    case False
    then have "i < i'" using assms(1) by simp
    then have "list_all2 (\<le>) (REBA_TABLE_C ! i) (REBA_TABLE_C ! i')"
      using REBA_TABLE_C_rows_increase assms(2) len by (simp add: sorted_wrt_iff_nth_less)
    then show ?thesis
      using assms(3,4) len' by (simp add: list_all2_conv_all_nth)
  qed
  also have "REBA_TABLE_C ! i' ! j \<le> REBA_TABLE_C ! i' ! j'"
    using REBA_TABLE_C_rows_sorted row assms(3,4) len' by (simp add: sorted_iff_nth_mono)
  finally show ?thesis .
qed

lemma js_round_mono: "u \<le> v \<Longrightarrow> js_round u \<le> js_round v"
  by (simp add: js_round_def floor_mono)

text \<open>The index into Table C that an adjusted group score gives, as the multiplier grows.\<close>

lemma adjusted_index_mono:
  fixes m m' :: real
  assumes "1 \<le> m" and "m \<le> m'"
  shows "min (max (min 12 (js_round (real_of_int g * m)) - 1) 0) 11
         \<le> min (max (min 12 (js_round (real_of_int g * m')) - 1) 0) 11"
proof (cases "0 \<le> g")
  case True
  then have "real_of_int g * m \<le> real_of_int g * m'"
    using assms(2) by (simp add: mult_left_mono)
  then have "js_round (real_of_int g * m) \<le> js_round (real_of_int g * m')"
    by (rule js_round_mono)
  then show ?thesis
    by (simp add: min_def max_def)
next
  case False
  then have g: "real_of_int g \<le> - 1"
    by simp
  have low: "js_round (real_of_int g * k) \<le> - 1" if "1 \<le> k" for k :: real
  proof -
    have "real_of_int g * k \<le> - 1 * k"
      using g that by (intro mult_right_mono) simp_all
    also have "\<dots> \<le> - 1"
      using that by simp
    finally have "real_of_int g * k + 1 / 2 < 0"
      by simp
    then have "\<lfloor>real_of_int g * k + 1 / 2\<rfloor> < 0"
      by (simp only: floor_less_zero)
    then show ?thesis
      unfolding js_round_def by linarith
  qed
  have "1 \<le> m'"
    using assms by simp
  from low[OF assms(1)] low[OF this] show ?thesis
    by (simp add: min_def max_def)
qed

lemma reba_multiplier_mono:
  fixes u v :: real
  assumes "u \<le> v"
  shows "(if u \<le> 5 then 1.0 else if u \<le> 10 then 1.1 else if u \<le> 20 then 1.3
          else if u \<le> 40 then 1.5 else 1.8)
         \<le> (if v \<le> 5 then 1.0 else if v \<le> 10 then 1.1 else if v \<le> 20 then 1.3
             else if v \<le> 40 then 1.5 else (1.8 :: real))"
    and "(1 :: real) \<le> (if u \<le> 5 then 1.0 else if u \<le> 10 then 1.1 else if u \<le> 20 then 1.3
          else if u \<le> 40 then 1.5 else 1.8)"
  using assms by auto

lemma rula_multiplier_mono:
  fixes u v :: real
  assumes "u \<le> v"
  shows "(if u > 23 then 3 else if u > 10 then 2 else if u > 5 then 1.5 else 1)
         \<le> (if v > 23 then 3 else if v > 10 then 2 else if v > 5 then 1.5 else (1 :: real))"
  using assms by auto

lemma reba_adjusted:
  obtains adj where "calculateWeightAdjustedReba (Some r) we mw = Inr (Some adj)"
    and "effectiveWeight adj = js_or mw (estimatedWeight we)"
    and "weightMultiplier adj =
         (if effectiveWeight adj \<le> 5 then 1.0
          else if effectiveWeight adj \<le> 10 then 1.1
          else if effectiveWeight adj \<le> 20 then 1.3
          else if effectiveWeight adj \<le> 40 then 1.5
          else 1.8)"
    and "scoreA (spread adj) = min 12 (js_round (real_of_int (scoreA r) * weightMultiplier adj))"
    and "scoreB (spread adj) = min 12 (js_round (real_of_int (scoreB r) * weightMultiplier adj))"
    and "finalScore (spread adj) =
         min 15 (REBA_TABLE_C ! nat (min (max (scoreA (spread adj) - 1) 0) 11)
                              ! nat (min (max (scoreB (spread adj) - 1) 0) 11))"
    and "riskLevel (spread adj) = getRebaRiskLevel (finalScore (spread adj))"
    and "actionLevel (spread adj) = getRebaActionLevel (finalScore (spread adj))"
    and "isWeightAdjusted adj = Some True"
proof -
  define ew where "ew = js_or mw (estimatedWeight we)"
  define m :: real where
    "m = (if ew \<le> 5 then 1.0 else if ew \<le> 10 then 1.1 else if ew \<le> 20 then 1.3
          else if ew \<le> 40 then 1.5 else 1.8)"
  define a where "a = min 12 (js_round (real_of_int (scoreA r) * m))"
  define b where "b = min 12 (js_round (real_of_int (scoreB r) * m))"
  define f where
    "f = min 15 (REBA_TABLE_C ! nat (min (max (a - 1) 0) 11) ! nat (min (max (b - 1) 0) 11))"
  let ?adj = "\<lparr>spread = r\<lparr>scoreA := a, scoreB := b, finalScore := f,
                                 riskLevel := getRebaRiskLevel f,
                                 actionLevel := getRebaActionLevel f\<rparr>,
                  effectiveWeight = ew, weightMultiplier = m, isWeightAdjusted = Some True\<rparr>"
  show thesis
    apply (rule that[of ?adj])
    subgoal by (rule calculateWeightAdjustedReba_Some[OF ew_def m_def a_def b_def f_def])
    subgoal by (simp add: ew_def)
    subgoal by (simp add: m_def)
    subgoal by (simp add: a_def)
    subgoal by (simp add: b_def)
    subgoal by (simp add: f_def)
    subgoal by simp
    subgoal by simp
    subgoal by simp
    done
qed

lemma rula_adjusted:
  obtains adj where "calculateWeightAdjustedRula (Some r) we mw = Some adj"
    and "effectiveWeight adj = js_or mw (estimatedWeight we)"
    and "weightMultiplier adj =
         (if effectiveWeight adj > 23 then 3
          else if effectiveWeight adj > 10 then 2
          else if effectiveWeight adj > 5 then 1.5
          else 1)"
    and "finalScore (spread adj) = min 7 \<lceil>real_of_int (finalScore r) * weightMultiplier adj\<rceil>"
    and "riskLevel (spread adj) =
         (if finalScore (spread adj) \<le> 2 then ''Low Risk''
          else if finalScore (spread adj) \<le> 4 then ''Medium Risk''
          else if finalScore (spread adj) \<le> 6 then ''High Risk''
          else ''Critical Risk'')"
    and "isWeightAdjusted adj = None"
proof -
  define ew where "ew = js_or (Some (js_or mw (estimatedWeight we))) 0"
  define m :: real where
    "m = (if ew > 23 then 3 else if ew > 10 then 2 else if ew > 5 then 1.5 else 1)"
  define f where "f = min 7 \<lceil>real_of_int (finalScore r) * m\<rceil>"
  define l where
    "l = (if f \<le> 2 then ''Low Risk'' else if f \<le> 4 then ''Medium Risk''
          else if f \<le> 6 then ''High Risk'' else ''Critical Risk'')"
  let ?adj = "\<lparr>spread = r\<lparr>finalScore := f, riskLevel := l\<rparr>,
                  effectiveWeight = ew, weightMultiplier = m, isWeightAdjusted = None\<rparr>"
  have ew: "ew = js_or mw (estimatedWeight we)"
    by (simp add: ew_def js_or_def)
  show thesis
    apply (rule that[of ?adj])
    subgoal unfolding l_def by (rule calculateWeightAdjustedRula_Some[OF ew_def m_def f_def])
    subgoal using ew by simp
    subgoal by (simp add: m_def)
    subgoal by (simp add: f_def)
    subgoal by (simp add: l_def)
    subgoal by simp
    done
qed

lemma js_or_manual:
  "\<forall>kg. mw = Some kg \<and> kg \<noteq> 0 \<longrightarrow> js_or mw est = kg"
  "mw = None \<or> mw = Some 0 \<longrightarrow> js_or mw est = est"
  by (auto simp: js_or_def)

section \<open>Claims\<close>

subsection \<open>C1: final scores stay within their documented range\<close>

text \<open>
  Claim C1. The RULA final-score lookup returns a value between 1 and 7 for every pair of
  group scores, and the RULA lookups of Score A and Score B return for every component score:
  each index is clamped, so no read misses its table. REBA's \<open>getFinalScore\<close> lies between
  1 and 15 for all arguments. \<open>calculateREBA\<close> returns a score for every pose of at least
  17 keypoints in which the nose, the shoulders, the elbows, the wrists and the hips are
  present, whatever their coordinates. Whenever it returns a score, its \<open>finalScore\<close>
  lies between 1 and 15, and the three lookups behind it read inside their tables: the
  component and group scores are valid one-based indices of Table A (5 by 4), Table B
  (6 by 3) and Table C (12 by 12), and \<open>scoreA\<close>, \<open>scoreB\<close> and \<open>finalScore\<close> are the entries
  found there. The angles are arbitrary reals throughout.
\<close>

theorem final_scores_within_range:
  "(\<exists>v. getFinalScore_rula a b = Inr v \<and> 1 \<le> v \<and> v \<le> 7)
   \<and> (\<exists>sa sb. getScoreA_rula u l w = Inr sa \<and> getScoreB_rula n t = Inr sb)
   \<and> 1 \<le> getFinalScore a b lc act \<and> getFinalScore a b lc act \<le> 15
   \<and> (17 \<le> length kps \<and> (\<forall>i\<in>{0, 5, 6, 7, 8, 9, 10, 11, 12}. js_elem kps i \<noteq> None)
        \<longrightarrow> (\<exists>score. calculateREBA (Some kps) = Some score))
   \<and> (calculateREBA pose = Some r \<longrightarrow>
        1 \<le> finalScore r \<and> finalScore r \<le> 15
        \<and> (1 \<le> neck r \<and> neck r \<le> 5 \<and> 1 \<le> legs r \<and> legs r \<le> 4
           \<and> scoreA r = REBA_TABLE_A ! nat (neck r - 1) ! nat (legs r - 1))
        \<and> (1 \<le> upperArm r \<and> upperArm r \<le> 6 \<and> 1 \<le> wrist r \<and> wrist r \<le> 3
           \<and> scoreB r = REBA_TABLE_B ! nat (upperArm r - 1) ! nat (wrist r - 1))
        \<and> (1 \<le> scoreA r \<and> scoreA r \<le> 12 \<and> 1 \<le> scoreB r \<and> scoreB r \<le> 12
           \<and> finalScore r = REBA_TABLE_C ! nat (scoreA r - 1) ! nat (scoreB r - 1)))"
proof (intro conjI impI)
  show "\<exists>v. getFinalScore_rula a b = Inr v \<and> 1 \<le> v \<and> v \<le> 7"
    by (rule getFinalScore_rula_range)
  show "\<exists>sa sb. getScoreA_rula u l w = Inr sa \<and> getScoreB_rula n t = Inr sb"
    using getScoreA_rula_returns[of u l w] getScoreB_rula_returns[of n t] by blast
  show "1 \<le> getFinalScore a b lc act" "getFinalScore a b lc act \<le> 15"
    by (rule getFinalScore_range)+
next
  assume "17 \<le> length kps \<and> (\<forall>i\<in>{0, 5, 6, 7, 8, 9, 10, 11, 12}. js_elem kps i \<noteq> None)"
  then show "\<exists>score. calculateREBA (Some kps) = Some score"
    by (elim conjE) (rule calculateREBA_returns)
next
  assume r: "calculateREBA pose = Some r"
  from calculateREBA_SomeD[OF r] have "finalScore r = getFinalScore (scoreA r) (scoreB r) 0 0"
    by blast
  then show "1 \<le> finalScore r" "finalScore r \<le> 15"
    using getFinalScore_range[of "scoreA r" "scoreB r" 0 0] by simp_all
  from calculateREBA_lookups[OF r]
  show "1 \<le> neck r" "neck r \<le> 5" "1 \<le> legs r" "legs r \<le> 4"
    "scoreA r = REBA_TABLE_A ! nat (neck r - 1) ! nat (legs r - 1)"
    "1 \<le> upperArm r" "upperArm r \<le> 6" "1 \<le> wrist r" "wrist r \<le> 3"
    "scoreB r = REBA_TABLE_B ! nat (upperArm r - 1) ! nat (wrist r - 1)"
    "1 \<le> scoreA r" "scoreA r \<le> 12" "1 \<le> scoreB r" "scoreB r \<le> 12"
    "finalScore r = REBA_TABLE_C ! nat (scoreA r - 1) ! nat (scoreB r - 1)"
    by simp_all
qed

text \<open>The standing pose is scored, and its final score is the entry of Table C.\<close>

theorem final_scores_within_range_witness:
  "\<exists>r. calculateREBA (Some standing) = Some r \<and> 1 \<le> finalScore r \<and> finalScore r \<le> 15
        \<and> finalScore r = REBA_TABLE_C ! nat (scoreA r - 1) ! nat (scoreB r - 1)"
proof -
  note t = final_scores_within_range
    [where kps = standing and pose = "Some standing" and a = 0 and b = 0 and u = 0 and l = 0
      and w = 0 and n = 0 and t = 0 and lc = 0 and act = 0]
  from t standing_elems obtain r where r: "calculateREBA (Some standing) = Some r"
    by blast
  with t[where r = r] show ?thesis
    by blast
qed

subsection \<open>C2: the weight-adjusted REBA score\<close>



subsection \<open>C3: the weight-adjusted RULA score\<close>

text \<open>
  Claim C3 says that the adjusted \<open>riskLevel\<close> carries the labels of the RULA breakpoints:
  Acceptable up to 2, Investigate up to 4, Investigate Soon up to 6, Investigate Immediately
  above. The code writes other labels. Without load the example score keeps its final score 2, for
  which the RULA label is Acceptable, and the adjusted \<open>riskLevel\<close> is Low Risk.
\<close>

theorem rula_risk_labels_counterexample:
  "map_option (finalScore \<circ> spread)
      (calculateWeightAdjustedRula (Some rula_base) (estimate_of 0) None) = Some 2
   \<and> map_option (riskLevel \<circ> spread)
      (calculateWeightAdjustedRula (Some rula_base) (estimate_of 0) None) = Some ''Low Risk''
   \<and> getRiskLevel_rula 2 = ''Acceptable''"
proof -
  obtain adj where ret: "calculateWeightAdjustedRula (Some rula_base) (estimate_of 0) None = Some adj"
    and ew: "effectiveWeight adj = js_or None (estimatedWeight (estimate_of 0))"
    and m: "weightMultiplier adj =
         (if effectiveWeight adj > 23 then 3
          else if effectiveWeight adj > 10 then 2
          else if effectiveWeight adj > 5 then 1.5
          else 1)"
    and f: "finalScore (spread adj) =
         min 7 \<lceil>real_of_int (finalScore rula_base) * weightMultiplier adj\<rceil>"
    and l: "riskLevel (spread adj) =
         (if finalScore (spread adj) \<le> 2 then ''Low Risk''
          else if finalScore (spread adj) \<le> 4 then ''Medium Risk''
          else if finalScore (spread adj) \<le> 6 then ''High Risk''
          else ''Critical Risk'')"
    by (rule rula_adjusted)
  have "effectiveWeight adj = 0"
    using ew by (simp add: js_or_def estimate_of_def)
  then have "weightMultiplier adj = 1"
    using m by simp
  then have f2: "finalScore (spread adj) = 2"
    using f by (simp add: rula_base_def)
  then have "riskLevel (spread adj) = ''Low Risk''"
    using l by simp
  with f2 ret show ?thesis
    by (simp add: getRiskLevel_rula_def)
qed

text \<open>
  Claim C3 as amended. On a RULA score \<open>calculateWeightAdjustedRula\<close> returns an adjusted
  score whose multiplier is 3 for an effective weight above 23, 2 above 10, 1.5 above 5 and 1
  otherwise; whose \<open>finalScore\<close> is the original one times the multiplier, rounded up and
  capped at 7; and whose \<open>riskLevel\<close> is derived from that \<open>finalScore\<close> at the breakpoints 2,
  4 and 6, with the labels Low Risk, Medium Risk, High Risk and Critical Risk.
\<close>

theorem rula_weight_adjustment:
  "\<exists>adj. calculateWeightAdjustedRula (Some r) we mw = Some adj
     \<and> weightMultiplier adj =
         (if effectiveWeight adj > 23 then 3
          else if effectiveWeight adj > 10 then 2
          else if effectiveWeight adj > 5 then 1.5
          else 1)
     \<and> finalScore (spread adj) = min 7 \<lceil>real_of_int (finalScore r) * weightMultiplier adj\<rceil>
     \<and> riskLevel (spread adj) =
         (if finalScore (spread adj) \<le> 2 then ''Low Risk''
          else if finalScore (spread adj) \<le> 4 then ''Medium Risk''
          else if finalScore (spread adj) \<le> 6 then ''High Risk''
          else ''Critical Risk'')"
proof -
  obtain adj where ret: "calculateWeightAdjustedRula (Some r) we mw = Some adj"
    and m: "weightMultiplier adj =
         (if effectiveWeight adj > 23 then 3
          else if effectiveWeight adj > 10 then 2
          else if effectiveWeight adj > 5 then 1.5
          else 1)"
    and f: "finalScore (spread adj) = min 7 \<lceil>real_of_int (finalScore r) * weightMultiplier adj\<rceil>"
    and l: "riskLevel (spread adj) =
         (if finalScore (spread adj) \<le> 2 then ''Low Risk''
          else if finalScore (spread adj) \<le> 4 then ''Medium Risk''
          else if finalScore (spread adj) \<le> 6 then ''High Risk''
          else ''Critical Risk'')"
    by (rule rula_adjusted)
  show ?thesis
    by (intro exI[of _ adj] conjI) (rule ret m f l)+
qed

subsection \<open>C4: the effective weight\<close>

text \<open>
  Claim C4 says that a manual weight, the value 0 included, is the effective weight whenever
  it is supplied. A manual weight of 0 is not: both functions choose with \<open>||\<close>, for which 0
  is as good as absent. With a manual weight of 0 and an estimated weight of 25 the effective
  weight is 25 in both.
\<close>

theorem zero_manual_weight_counterexample:
  "map_option effectiveWeight
      (calculateWeightAdjustedRula (Some rula_base) (estimate_of 25) (Some 0)) = Some 25
   \<and> map_sum id (map_option effectiveWeight)
      (calculateWeightAdjustedReba (Some reba_base) (estimate_of 25) (Some 0)) = Inr (Some 25)"
proof -
  have e: "js_or (Some 0) (estimatedWeight (estimate_of 25)) = 25"
    by (simp add: js_or_def estimate_of_def)
  obtain adj where "calculateWeightAdjustedRula (Some rula_base) (estimate_of 25) (Some 0) = Some adj"
    and "effectiveWeight adj = js_or (Some 0) (estimatedWeight (estimate_of 25))"
    by (rule rula_adjusted)
  then have rula: "map_option effectiveWeight
      (calculateWeightAdjustedRula (Some rula_base) (estimate_of 25) (Some 0)) = Some 25"
    by (simp add: e)
  obtain adj where
      "calculateWeightAdjustedReba (Some reba_base) (estimate_of 25) (Some 0) = Inr (Some adj)"
    and "effectiveWeight adj = js_or (Some 0) (estimatedWeight (estimate_of 25))"
    by (rule reba_adjusted)
  then have "map_sum id (map_option effectiveWeight)
      (calculateWeightAdjustedReba (Some reba_base) (estimate_of 25) (Some 0)) = Inr (Some 25)"
    by (simp add: e)
  with rula show ?thesis
    by (rule conjI)
qed

text \<open>
  Claim C4 as amended. For both \<open>calculateWeightAdjustedRula\<close> and
  \<open>calculateWeightAdjustedReba\<close>, the effective weight is the manual weight whenever one
  other than 0 is supplied, and \<open>weightEstimation.estimatedWeight\<close> when none or 0 is
  supplied; the multiplier is picked by that effective weight.
\<close>

theorem effective_weight_selection:
  "(\<exists>adj. calculateWeightAdjustedReba (Some r) we mw = Inr (Some adj)
      \<and> (\<forall>kg. mw = Some kg \<and> kg \<noteq> 0 \<longrightarrow> effectiveWeight adj = kg)
      \<and> (mw = None \<or> mw = Some 0 \<longrightarrow> effectiveWeight adj = estimatedWeight we)
      \<and> weightMultiplier adj =
          (if effectiveWeight adj \<le> 5 then 1.0
           else if effectiveWeight adj \<le> 10 then 1.1
           else if effectiveWeight adj \<le> 20 then 1.3
           else if effectiveWeight adj \<le> 40 then 1.5
           else 1.8))
   \<and> (\<exists>adj. calculateWeightAdjustedRula (Some q) we mw = Some adj
      \<and> (\<forall>kg. mw = Some kg \<and> kg \<noteq> 0 \<longrightarrow> effectiveWeight adj = kg)
      \<and> (mw = None \<or> mw = Some 0 \<longrightarrow> effectiveWeight adj = estimatedWeight we)
      \<and> weightMultiplier adj =
          (if effectiveWeight adj > 23 then 3
           else if effectiveWeight adj > 10 then 2
           else if effectiveWeight adj > 5 then 1.5
           else 1))"
proof (rule conjI)
  obtain adj where ret: "calculateWeightAdjustedReba (Some r) we mw = Inr (Some adj)"
    and ew: "effectiveWeight adj = js_or mw (estimatedWeight we)"
    and m: "weightMultiplier adj =
         (if effectiveWeight adj \<le> 5 then 1.0
          else if effectiveWeight adj \<le> 10 then 1.1
          else if effectiveWeight adj \<le> 20 then 1.3
          else if effectiveWeight adj \<le> 40 then 1.5
          else 1.8)"
    by (rule reba_adjusted)
  show "\<exists>adj. calculateWeightAdjustedReba (Some r) we mw = Inr (Some adj)
      \<and> (\<forall>kg. mw = Some kg \<and> kg \<noteq> 0 \<longrightarrow> effectiveWeight adj = kg)
      \<and> (mw = None \<or> mw = Some 0 \<longrightarrow> effectiveWeight adj = estimatedWeight we)
      \<and> weightMultiplier adj =
          (if effectiveWeight adj \<le> 5 then 1.0
           else if effectiveWeight adj \<le> 10 then 1.1
           else if effectiveWeight adj \<le> 20 then 1.3
           else if effectiveWeight adj \<le> 40 then 1.5
           else 1.8)"
  proof (intro exI[of _ adj] conjI)
    show "\<forall>kg. mw = Some kg \<and> kg \<noteq> 0 \<longrightarrow> effectiveWeight adj = kg"
      unfolding ew by (rule js_or_manual(1))
    show "mw = None \<or> mw = Some 0 \<longrightarrow> effectiveWeight adj = estimatedWeight we"
      unfolding ew by (rule js_or_manual(2))
  qed (rule ret m)+
next
  obtain adj where ret: "calculateWeightAdjustedRula (Some q) we mw = Some adj"
    and ew: "effectiveWeight adj = js_or mw (estimatedWeight we)"
    and m: "weightMultiplier adj =
         (if effectiveWeight adj > 23 then 3
          else if effectiveWeight adj > 10 then 2
          else if effectiveWeight adj > 5 then 1.5
          else 1)"
    by (rule rula_adjusted)
  show "\<exists>adj. calculateWeightAdjustedRula (Some q) we mw = Some adj
      \<and> (\<forall>kg. mw = Some kg \<and> kg \<noteq> 0 \<longrightarrow> effectiveWeight adj = kg)
      \<and> (mw = None \<or> mw = Some 0 \<longrightarrow> effectiveWeight adj = estimatedWeight we)
      \<and> weightMultiplier adj =
          (if effectiveWeight adj > 23 then 3
           else if effectiveWeight adj > 10 then 2
           else if effectiveWeight adj > 5 then 1.5
           else 1)"
  proof (intro exI[of _ adj] conjI)
    show "\<forall>kg. mw = Some kg \<and> kg \<noteq> 0 \<longrightarrow> effectiveWeight adj = kg"
      unfolding ew by (rule js_or_manual(1))
    show "mw = None \<or> mw = Some 0 \<longrightarrow> effectiveWeight adj = estimatedWeight we"
      unfolding ew by (rule js_or_manual(2))
  qed (rule ret m)+
qed

text \<open>A manual weight of 25 overrides an estimate of 3; a manual weight of 0 leaves an estimate of 8.\<close>

theorem effective_weight_selection_witness:
  "(\<exists>adj. calculateWeightAdjustedReba (Some reba_base) (estimate_of 3) (Some 25) = Inr (Some adj)
      \<and> effectiveWeight adj = 25 \<and> weightMultiplier adj = 1.5)
   \<and> (\<exists>adj. calculateWeightAdjustedRula (Some rula_base) (estimate_of 8) (Some 0) = Some adj
      \<and> effectiveWeight adj = 8 \<and> weightMultiplier adj = 1.5)"
proof (rule conjI)
  from effective_weight_selection[of reba_base "estimate_of 3" "Some 25" rula_base]
  obtain adj where ret:
      "calculateWeightAdjustedReba (Some reba_base) (estimate_of 3) (Some 25) = Inr (Some adj)"
    and ew: "\<forall>kg. Some (25 :: real) = Some kg \<and> kg \<noteq> 0 \<longrightarrow> effectiveWeight adj = kg"
    and m: "weightMultiplier adj =
         (if effectiveWeight adj \<le> 5 then 1.0
          else if effectiveWeight adj \<le> 10 then 1.1
          else if effectiveWeight adj \<le> 20 then 1.3
          else if effectiveWeight adj \<le> 40 then 1.5
          else 1.8)"
    by (elim exE conjE)
  from ew have e: "effectiveWeight adj = 25"
    by simp
  with m have "weightMultiplier adj = 1.5"
    by simp
  with ret e show "\<exists>adj. calculateWeightAdjustedReba (Some reba_base) (estimate_of 3) (Some 25)
        = Inr (Some adj) \<and> effectiveWeight adj = 25 \<and> weightMultiplier adj = 1.5"
    by (intro exI[of _ adj]) (simp only: simp_thms)
next
  from effective_weight_selection[of reba_base "estimate_of 8" "Some 0" rula_base]
  obtain adj where ret:
      "calculateWeightAdjustedRula (Some rula_base) (estimate_of 8) (Some 0) = Some adj"
    and ew: "Some (0 :: real) = None \<or> Some (0 :: real) = Some 0
              \<longrightarrow> effectiveWeight adj = estimatedWeight (estimate_of 8)"
    and m: "weightMultiplier adj =
         (if effectiveWeight adj > 23 then 3
          else if effectiveWeight adj > 10 then 2
          else if effectiveWeight adj > 5 then 1.5
          else 1)"
    by (elim exE conjE)
  from ew have e: "effectiveWeight adj = 8"
    by (simp add: estimate_of_def)
  with m have "weightMultiplier adj = 1.5"
    by simp
  with ret e show "\<exists>adj. calculateWeightAdjustedRula (Some rula_base) (estimate_of 8) (Some 0)
        = Some adj \<and> effectiveWeight adj = 8 \<and> weightMultiplier adj = 1.5"
    by (intro exI[of _ adj]) (simp only: simp_thms)
qed

subsection \<open>C5: Score A ignores the trunk, Score B ignores the lower arm\<close>

text \<open>
  Claim C5. In the REBA scorer \<open>getScoreA\<close> returns the same value for any two trunk scores,
  and \<open>getScoreB\<close> the same value for any two lower-arm scores. Table A has 5 rows of 4
  entries and Table B 6 rows of 3; for a neck score from 1 to 5 and a legs score from 1 to 4,
  Score A is the entry of Table A in row \<open>neck - 1\<close> and column \<open>legs - 1\<close>, and for an
  upper-arm score from 1 to 6 and a wrist score from 1 to 3, Score B is the entry of Table B
  in row \<open>upperArm - 1\<close> and column \<open>wrist - 1\<close>.
\<close>

theorem group_scores_ignore_trunk_and_lower_arm:
  "getScoreA n ta l = getScoreA n tb l
   \<and> getScoreB u la w = getScoreB u lb w
   \<and> length REBA_TABLE_A = 5 \<and> (\<forall>row\<in>set REBA_TABLE_A. length row = 4)
   \<and> length REBA_TABLE_B = 6 \<and> (\<forall>row\<in>set REBA_TABLE_B. length row = 3)
   \<and> (\<forall>n'\<in>{1..5}. \<forall>l'\<in>{1..4}. getScoreA n' t l' = REBA_TABLE_A ! nat (n' - 1) ! nat (l' - 1))
   \<and> (\<forall>u'\<in>{1..6}. \<forall>w'\<in>{1..3}. getScoreB u' l w' = REBA_TABLE_B ! nat (u' - 1) ! nat (w' - 1))"
proof (intro conjI ballI)
  show "getScoreA n ta l = getScoreA n tb l"
    by (simp add: getScoreA_def)
  show "getScoreB u la w = getScoreB u lb w"
    by (simp add: getScoreB_def)
  show "length REBA_TABLE_A = 5" "length REBA_TABLE_B = 6"
    by (simp_all add: REBA_TABLE_A_shape REBA_TABLE_B_shape)
  show "length row = 4" if "row \<in> set REBA_TABLE_A" for row
    using that REBA_TABLE_A_shape(2) by blast
  show "length row = 3" if "row \<in> set REBA_TABLE_B" for row
    using that REBA_TABLE_B_shape(2) by blast
  show "getScoreA n' t l' = REBA_TABLE_A ! nat (n' - 1) ! nat (l' - 1)"
    if "n' \<in> {1..5}" "l' \<in> {1..4}" for n' l'
    using that getScoreA_inside(1)[of n' l' t] by simp
  show "getScoreB u' l w' = REBA_TABLE_B ! nat (u' - 1) ! nat (w' - 1)"
    if "u' \<in> {1..6}" "w' \<in> {1..3}" for u' w'
    using that getScoreB_inside(1)[of u' w' l] by simp
qed

text \<open>Neck 3 and legs 2 give Score A 4; upper arm 5 and wrist 2 give Score B 7.\<close>

theorem group_scores_ignore_trunk_and_lower_arm_witness:
  "getScoreA 3 1 2 = getScoreA 3 5 2 \<and> getScoreA 3 1 2 = 4
   \<and> getScoreB 5 1 2 = getScoreB 5 2 2 \<and> getScoreB 5 1 2 = 7"
proof -
  note c = group_scores_ignore_trunk_and_lower_arm
    [where n = 3 and ta = 1 and tb = 5 and l = 2 and u = 5 and la = 1 and lb = 2 and w = 2 and t = 1]
  from c have same: "getScoreA 3 1 2 = getScoreA 3 5 2" "getScoreB 5 1 2 = getScoreB 5 2 2"
    by blast+
  from c have "\<forall>n'\<in>{1..5}. \<forall>l'\<in>{1..4}. getScoreA n' 1 l' = REBA_TABLE_A ! nat (n' - 1) ! nat (l' - 1)"
    by blast
  then have "getScoreA 3 1 2 = REBA_TABLE_A ! nat (3 - 1) ! nat (2 - 1)"
    by simp
  then have a: "getScoreA 3 1 2 = 4"
    by (simp add: REBA_TABLE_A_def)
  from c have "\<forall>u'\<in>{1..6}. \<forall>w'\<in>{1..3}. getScoreB u' 2 w' = REBA_TABLE_B ! nat (u' - 1) ! nat (w' - 1)"
    by blast
  then have "getScoreB 5 2 2 = REBA_TABLE_B ! nat (5 - 1) ! nat (2 - 1)"
    by simp
  then have b: "getScoreB 5 2 2 = 7"
    by (simp add: REBA_TABLE_B_def)
  from same a b show ?thesis
    by simp
qed

subsection \<open>C6: the elbow angle\<close>





subsection \<open>C7: a heavier load never lowers the adjusted score\<close>

text \<open>
  Claim C7. For one base score and two calls whose effective weights are ordered, the
  adjusted final scores are ordered the same way: for \<open>calculateWeightAdjustedRula\<close> on a
  base whose final score is not negative (a RULA final score is at least 1), and for
  \<open>calculateWeightAdjustedReba\<close> on every base. The effective weights are arbitrary reals, so
  the band boundaries 5, 10 and 23, and 5, 10, 20 and 40, are covered.
\<close>

theorem weight_adjustment_monotone:
  "(calculateWeightAdjustedRula (Some q) we_lo mw_lo = Some lo
      \<and> calculateWeightAdjustedRula (Some q) we_hi mw_hi = Some hi
      \<and> effectiveWeight lo \<le> effectiveWeight hi \<and> 0 \<le> finalScore q
    \<longrightarrow> finalScore (spread lo) \<le> finalScore (spread hi))
   \<and> (calculateWeightAdjustedReba (Some r) we_lo mw_lo = Inr (Some rlo)
      \<and> calculateWeightAdjustedReba (Some r) we_hi mw_hi = Inr (Some rhi)
      \<and> effectiveWeight rlo \<le> effectiveWeight rhi
    \<longrightarrow> finalScore (spread rlo) \<le> finalScore (spread rhi))"
proof (intro conjI impI)
  assume h: "calculateWeightAdjustedRula (Some q) we_lo mw_lo = Some lo
      \<and> calculateWeightAdjustedRula (Some q) we_hi mw_hi = Some hi
      \<and> effectiveWeight lo \<le> effectiveWeight hi \<and> 0 \<le> finalScore q"
  obtain x where x: "calculateWeightAdjustedRula (Some q) we_lo mw_lo = Some x"
    and mx: "weightMultiplier x =
         (if effectiveWeight x > 23 then 3 else if effectiveWeight x > 10 then 2
          else if effectiveWeight x > 5 then 1.5 else 1)"
    and fx: "finalScore (spread x) = min 7 \<lceil>real_of_int (finalScore q) * weightMultiplier x\<rceil>"
    by (rule rula_adjusted)
  obtain y where y: "calculateWeightAdjustedRula (Some q) we_hi mw_hi = Some y"
    and my: "weightMultiplier y =
         (if effectiveWeight y > 23 then 3 else if effectiveWeight y > 10 then 2
          else if effectiveWeight y > 5 then 1.5 else 1)"
    and fy: "finalScore (spread y) = min 7 \<lceil>real_of_int (finalScore q) * weightMultiplier y\<rceil>"
    by (rule rula_adjusted)
  have xy: "x = lo" "y = hi"
    using h x y by simp_all
  note lo = mx[unfolded xy] fx[unfolded xy] and hi = my[unfolded xy] fy[unfolded xy]
  from h have "effectiveWeight lo \<le> effectiveWeight hi"
    by (elim conjE)
  then have "weightMultiplier lo \<le> weightMultiplier hi"
    unfolding lo(1) hi(1) by (rule rula_multiplier_mono)
  moreover from h have "0 \<le> finalScore q"
    by (elim conjE)
  then have "0 \<le> real_of_int (finalScore q)"
    by simp
  ultimately have "real_of_int (finalScore q) * weightMultiplier lo
      \<le> real_of_int (finalScore q) * weightMultiplier hi"
    by (rule mult_left_mono)
  then have "\<lceil>real_of_int (finalScore q) * weightMultiplier lo\<rceil>
      \<le> \<lceil>real_of_int (finalScore q) * weightMultiplier hi\<rceil>"
    by (rule ceiling_mono)
  then have "min 7 \<lceil>real_of_int (finalScore q) * weightMultiplier lo\<rceil>
      \<le> min 7 \<lceil>real_of_int (finalScore q) * weightMultiplier hi\<rceil>"
    by (rule min.mono[OF order_refl])
  then show "finalScore (spread lo) \<le> finalScore (spread hi)"
    by (simp only: lo(2) hi(2))
next
  assume h: "calculateWeightAdjustedReba (Some r) we_lo mw_lo = Inr (Some rlo)
      \<and> calculateWeightAdjustedReba (Some r) we_hi mw_hi = Inr (Some rhi)
      \<and> effectiveWeight rlo \<le> effectiveWeight rhi"
  let ?ix = "\<lambda>g m. min (max (min 12 (js_round (real_of_int g * m)) - 1) 0) 11"
  obtain x where x: "calculateWeightAdjustedReba (Some r) we_lo mw_lo = Inr (Some x)"
    and mx: "weightMultiplier x =
         (if effectiveWeight x \<le> 5 then 1.0 else if effectiveWeight x \<le> 10 then 1.1
          else if effectiveWeight x \<le> 20 then 1.3 else if effectiveWeight x \<le> 40 then 1.5
          else 1.8)"
    and ax: "scoreA (spread x) = min 12 (js_round (real_of_int (scoreA r) * weightMultiplier x))"
    and bx: "scoreB (spread x) = min 12 (js_round (real_of_int (scoreB r) * weightMultiplier x))"
    and fx: "finalScore (spread x) =
         min 15 (REBA_TABLE_C ! nat (min (max (scoreA (spread x) - 1) 0) 11)
                              ! nat (min (max (scoreB (spread x) - 1) 0) 11))"
    by (rule reba_adjusted)
  obtain y where y: "calculateWeightAdjustedReba (Some r) we_hi mw_hi = Inr (Some y)"
    and my: "weightMultiplier y =
         (if effectiveWeight y \<le> 5 then 1.0 else if effectiveWeight y \<le> 10 then 1.1
          else if effectiveWeight y \<le> 20 then 1.3 else if effectiveWeight y \<le> 40 then 1.5
          else 1.8)"
    and ay: "scoreA (spread y) = min 12 (js_round (real_of_int (scoreA r) * weightMultiplier y))"
    and by': "scoreB (spread y) = min 12 (js_round (real_of_int (scoreB r) * weightMultiplier y))"
    and fy: "finalScore (spread y) =
         min 15 (REBA_TABLE_C ! nat (min (max (scoreA (spread y) - 1) 0) 11)
                              ! nat (min (max (scoreB (spread y) - 1) 0) 11))"
    by (rule reba_adjusted)
  have xy: "x = rlo" "y = rhi"
    using h x y by simp_all
  have lo: "finalScore (spread rlo) =
       min 15 (REBA_TABLE_C ! nat (?ix (scoreA r) (weightMultiplier rlo))
                            ! nat (?ix (scoreB r) (weightMultiplier rlo)))"
    using fx[unfolded xy] by (simp only: ax[unfolded xy] bx[unfolded xy])
  have hi: "finalScore (spread rhi) =
       min 15 (REBA_TABLE_C ! nat (?ix (scoreA r) (weightMultiplier rhi))
                            ! nat (?ix (scoreB r) (weightMultiplier rhi)))"
    using fy[unfolded xy] by (simp only: ay[unfolded xy] by'[unfolded xy])
  from h have w: "effectiveWeight rlo \<le> effectiveWeight rhi"
    by (elim conjE)
  have m: "weightMultiplier rlo \<le> weightMultiplier rhi" and one: "1 \<le> weightMultiplier rlo"
    unfolding mx[unfolded xy] my[unfolded xy] by (rule reba_multiplier_mono[OF w])+
  have ia: "?ix (scoreA r) (weightMultiplier rlo) \<le> ?ix (scoreA r) (weightMultiplier rhi)"
    and ib: "?ix (scoreB r) (weightMultiplier rlo) \<le> ?ix (scoreB r) (weightMultiplier rhi)"
    by (rule adjusted_index_mono[OF one m])+
  have "REBA_TABLE_C ! nat (?ix (scoreA r) (weightMultiplier rlo))
                     ! nat (?ix (scoreB r) (weightMultiplier rlo))
      \<le> REBA_TABLE_C ! nat (?ix (scoreA r) (weightMultiplier rhi))
                       ! nat (?ix (scoreB r) (weightMultiplier rhi))"
  proof (rule REBA_TABLE_C_mono)
    show "nat (?ix (scoreA r) (weightMultiplier rlo)) \<le> nat (?ix (scoreA r) (weightMultiplier rhi))"
      using ia by (rule nat_mono)
    show "nat (?ix (scoreB r) (weightMultiplier rlo)) \<le> nat (?ix (scoreB r) (weightMultiplier rhi))"
      using ib by (rule nat_mono)
    show "nat (?ix (scoreA r) (weightMultiplier rhi)) < 12"
      by simp
    show "nat (?ix (scoreB r) (weightMultiplier rhi)) < 12"
      by simp
  qed
  then have "min 15 (REBA_TABLE_C ! nat (?ix (scoreA r) (weightMultiplier rlo))
                                ! nat (?ix (scoreB r) (weightMultiplier rlo)))
      \<le> min 15 (REBA_TABLE_C ! nat (?ix (scoreA r) (weightMultiplier rhi))
                               ! nat (?ix (scoreB r) (weightMultiplier rhi)))"
    by (rule min.mono[OF order_refl])
  then show "finalScore (spread rlo) \<le> finalScore (spread rhi)"
    by (simp only: lo hi)
qed

text \<open>The example scores at 4 kg and at 30 kg (RULA), at 4 kg and at 50 kg (REBA).\<close>

theorem weight_adjustment_monotone_witness:
  "(\<exists>lo hi. calculateWeightAdjustedRula (Some rula_base) (estimate_of 4) None = Some lo
      \<and> calculateWeightAdjustedRula (Some rula_base) (estimate_of 30) None = Some hi
      \<and> effectiveWeight lo \<le> effectiveWeight hi
      \<and> finalScore (spread lo) \<le> finalScore (spread hi))
   \<and> (\<exists>lo hi. calculateWeightAdjustedReba (Some reba_base) (estimate_of 4) None = Inr (Some lo)
      \<and> calculateWeightAdjustedReba (Some reba_base) (estimate_of 50) None = Inr (Some hi)
      \<and> effectiveWeight lo \<le> effectiveWeight hi
      \<and> finalScore (spread lo) \<le> finalScore (spread hi))"
proof (rule conjI)
  obtain lo where lo: "calculateWeightAdjustedRula (Some rula_base) (estimate_of 4) None = Some lo"
    and "effectiveWeight lo = js_or None (estimatedWeight (estimate_of 4))"
    by (rule rula_adjusted)
  then have elo: "effectiveWeight lo = 4"
    by (simp add: js_or_def estimate_of_def)
  obtain hi where hi: "calculateWeightAdjustedRula (Some rula_base) (estimate_of 30) None = Some hi"
    and "effectiveWeight hi = js_or None (estimatedWeight (estimate_of 30))"
    by (rule rula_adjusted)
  then have ehi: "effectiveWeight hi = 30"
    by (simp add: js_or_def estimate_of_def)
  have le: "effectiveWeight lo \<le> effectiveWeight hi" and base: "0 \<le> finalScore rula_base"
    by (simp_all add: elo ehi rula_base_def)
  have "calculateWeightAdjustedRula (Some rula_base) (estimate_of 4) None = Some lo
      \<and> calculateWeightAdjustedRula (Some rula_base) (estimate_of 30) None = Some hi
      \<and> effectiveWeight lo \<le> effectiveWeight hi \<and> 0 \<le> finalScore rula_base
    \<longrightarrow> finalScore (spread lo) \<le> finalScore (spread hi)"
    by (rule conjunct1[OF weight_adjustment_monotone])
  then have "finalScore (spread lo) \<le> finalScore (spread hi)"
    by (rule mp) (intro conjI lo hi le base)
  with lo hi le show "\<exists>lo hi.
      calculateWeightAdjustedRula (Some rula_base) (estimate_of 4) None = Some lo
      \<and> calculateWeightAdjustedRula (Some rula_base) (estimate_of 30) None = Some hi
      \<and> effectiveWeight lo \<le> effectiveWeight hi
      \<and> finalScore (spread lo) \<le> finalScore (spread hi)"
    by (intro exI[of _ lo] exI[of _ hi] conjI)
next
  obtain lo where lo:
      "calculateWeightAdjustedReba (Some reba_base) (estimate_of 4) None = Inr (Some lo)"
    and "effectiveWeight lo = js_or None (estimatedWeight (estimate_of 4))"
    by (rule reba_adjusted)
  then have elo: "effectiveWeight lo = 4"
    by (simp add: js_or_def estimate_of_def)
  obtain hi where hi:
      "calculateWeightAdjustedReba (Some reba_base) (estimate_of 50) None = Inr (Some hi)"
    and "effectiveWeight hi = js_or None (estimatedWeight (estimate_of 50))"
    by (rule reba_adjusted)
  then have ehi: "effectiveWeight hi = 50"
    by (simp add: js_or_def estimate_of_def)
  have le: "effectiveWeight lo \<le> effectiveWeight hi"
    by (simp add: elo ehi)
  have "calculateWeightAdjustedReba (Some reba_base) (estimate_of 4) None = Inr (Some lo)
      \<and> calculateWeightAdjustedReba (Some reba_base) (estimate_of 50) None = Inr (Some hi)
      \<and> effectiveWeight lo \<le> effectiveWeight hi
    \<longrightarrow> finalScore (spread lo) \<le> finalScore (spread hi)"
    by (rule conjunct2[OF weight_adjustment_monotone])
  then have "finalScore (spread lo) \<le> finalScore (spread hi)"
    by (rule mp) (intro conjI lo hi le)
  with lo hi le show "\<exists>lo hi.
      calculateWeightAdjustedReba (Some reba_base) (estimate_of 4) None = Inr (Some lo)
      \<and> calculateWeightAdjustedReba (Some reba_base) (estimate_of 50) None = Inr (Some hi)
      \<and> effectiveWeight lo \<le> effectiveWeight hi
      \<and> finalScore (spread lo) \<le> finalScore (spread hi)"
    by (intro exI[of _ lo] exI[of _ hi] conjI)
qed

subsection \<open>C8: no load is estimated without lifting or carrying\<close>

text \<open>
  Claim C8. For every list of keypoints, with \<open>undefined\<close> entries or not,
  \<open>estimateWeightFromPosture\<close> returns and does not throw. Whenever the posture analysis of
  the result has both \<open>isLifting\<close> and \<open>isCarrying\<close> false, its \<open>estimatedWeight\<close> is 0 and its
  \<open>confidence\<close> is 0.1. For fewer than 17 keypoints the posture analysis is the default one,
  with both flags false, arm position \<open>close\<close>, spine deviation 0 and load direction
  \<open>front\<close>, and so the weight is 0 and the confidence 0.1.
\<close>

theorem no_load_without_lifting_or_carrying:
  "\<exists>est. estimateWeightFromPosture kps = Some est
     \<and> (\<not> isLifting (bodyPosture est) \<and> \<not> isCarrying (bodyPosture est)
          \<longrightarrow> estimatedWeight est = 0 \<and> confidence est = 0.1)
     \<and> (length kps < 17
          \<longrightarrow> bodyPosture est =
                \<lparr>isLifting = False, isCarrying = False, armPosition = Close,
                 spineDeviation = 0, loadDirection = Front\<rparr>
              \<and> estimatedWeight est = 0 \<and> confidence est = 0.1)"
proof -
  obtain p where p: "analyzePosture kps = Some p"
    using analyzePosture_returns by blast
  obtain v where v: "calculateWeightFromPosture p kps = Some v"
    using calculateWeightFromPosture_returns by blast
  let ?holding = "isLifting p \<or> isCarrying p"
  let ?est = "\<lparr>estimatedWeight = (if ?holding then v else 0),
                confidence = (if ?holding then 0.8 else 0.1),
                detectedObjects = [], bodyPosture = p\<rparr>"
  have est: "estimateWeightFromPosture kps = Some ?est"
    by (simp add: estimateWeightFromPosture_def p v)
  have "estimatedWeight ?est = 0 \<and> confidence ?est = 0.1"
    if "\<not> isLifting (bodyPosture ?est) \<and> \<not> isCarrying (bodyPosture ?est)"
    using that by simp
  moreover
  have "bodyPosture ?est =
          \<lparr>isLifting = False, isCarrying = False, armPosition = Close,
           spineDeviation = 0, loadDirection = Front\<rparr>
        \<and> estimatedWeight ?est = 0 \<and> confidence ?est = 0.1"
    if "length kps < 17"
    using analyzePosture_short[OF that] p by simp
  ultimately show ?thesis
    using est by blast
qed

text \<open>
  The empty list of keypoints gives the default analysis, weight 0 and confidence 0.1; the
  standing pose of 17 keypoints has both flags false, weight 0 and confidence 0.1.
\<close>

theorem no_load_without_lifting_or_carrying_witness:
  "(\<exists>est. estimateWeightFromPosture [] = Some est
      \<and> bodyPosture est =
          \<lparr>isLifting = False, isCarrying = False, armPosition = Close,
           spineDeviation = 0, loadDirection = Front\<rparr>
      \<and> estimatedWeight est = 0 \<and> confidence est = 0.1)
   \<and> (\<exists>est. estimateWeightFromPosture standing = Some est
      \<and> \<not> isLifting (bodyPosture est) \<and> \<not> isCarrying (bodyPosture est)
      \<and> estimatedWeight est = 0 \<and> confidence est = 0.1)"
proof (rule conjI)
  show "\<exists>est. estimateWeightFromPosture [] = Some est
      \<and> bodyPosture est =
          \<lparr>isLifting = False, isCarrying = False, armPosition = Close,
           spineDeviation = 0, loadDirection = Front\<rparr>
      \<and> estimatedWeight est = 0 \<and> confidence est = 0.1"
    using no_load_without_lifting_or_carrying[of "[]"] by auto
next
  from no_load_without_lifting_or_carrying[of standing]
  obtain est where est: "estimateWeightFromPosture standing = Some est"
    and none: "\<not> isLifting (bodyPosture est) \<and> \<not> isCarrying (bodyPosture est)
          \<longrightarrow> estimatedWeight est = 0 \<and> confidence est = 0.1"
    by (elim exE conjE)
  from estimate_posture[OF est] have "bodyPosture est =
      \<lparr>isLifting = False, isCarrying = False, armPosition = Close, spineDeviation = 0,
       loadDirection = Front\<rparr>"
    by (simp add: analyzePosture_standing)
  then have flags: "\<not> isLifting (bodyPosture est) \<and> \<not> isCarrying (bodyPosture est)"
    by simp
  with none have "estimatedWeight est = 0 \<and> confidence est = 0.1"
    by (rule mp)
  with est flags show "\<exists>est. estimateWeightFromPosture standing = Some est
      \<and> \<not> isLifting (bodyPosture est) \<and> \<not> isCarrying (bodyPosture est)
      \<and> estimatedWeight est = 0 \<and> confidence est = 0.1"
    by (intro exI[of _ est] conjI) simp_all
qed


subsection \<open>C9: what the adjusted score adds to the base\<close>

text \<open>
  Claim C9, evaluated where it fails. The adjusted RULA score has no \<open>isWeightAdjusted\<close>
  property: the object literal of \<open>calculateWeightAdjustedRula\<close> adds \<open>effectiveWeight\<close> and
  \<open>weightMultiplier\<close> only, while that of \<open>calculateWeightAdjustedReba\<close> adds
  \<open>isWeightAdjusted: true\<close> as well. On the example RULA score, without load, the result
  keeps every field of the base but \<open>finalScore\<close> and \<open>riskLevel\<close> and has no
  \<open>isWeightAdjusted\<close>; on the example REBA score that property is \<open>true\<close>.
\<close>

theorem rula_adjustment_sets_no_flag:
  "calculateWeightAdjustedRula (Some rula_base) (estimate_of 0) None =
     Some \<lparr>spread = rula_base\<lparr>finalScore := 2, riskLevel := ''Low Risk''\<rparr>,
           effectiveWeight = 0, weightMultiplier = 1, isWeightAdjusted = None\<rparr>
   \<and> map_sum id (map_option isWeightAdjusted)
      (calculateWeightAdjustedReba (Some reba_base) (estimate_of 0) None) = Inr (Some (Some True))"
proof (rule conjI)
  have ew: "(0 :: real) = js_or (Some (js_or None (estimatedWeight (estimate_of 0)))) 0"
    by (simp add: js_or_def estimate_of_def)
  have m: "(1 :: real) =
      (if (0 :: real) > 23 then 3 else if (0 :: real) > 10 then 2
       else if (0 :: real) > 5 then 1.5 else 1)"
    by simp
  have f: "2 = min 7 \<lceil>real_of_int (finalScore rula_base) * 1\<rceil>"
    by (simp add: rula_base_def)
  from calculateWeightAdjustedRula_Some[OF ew m f]
  show "calculateWeightAdjustedRula (Some rula_base) (estimate_of 0) None =
     Some \<lparr>spread = rula_base\<lparr>finalScore := 2, riskLevel := ''Low Risk''\<rparr>,
           effectiveWeight = 0, weightMultiplier = 1, isWeightAdjusted = None\<rparr>"
    by simp
next
  obtain adj where
      "calculateWeightAdjustedReba (Some reba_base) (estimate_of 0) None = Inr (Some adj)"
    and "isWeightAdjusted adj = Some True"
    by (rule reba_adjusted)
  then show "map_sum id (map_option isWeightAdjusted)
      (calculateWeightAdjustedReba (Some reba_base) (estimate_of 0) None) = Inr (Some (Some True))"
    by simp
qed

subsection \<open>C10: the wrist score of \<open>calculateREBA\<close> is constant\<close>

text \<open>
  Claim C10. Whenever \<open>calculateREBA\<close> returns a score, its wrist component score is 1 and
  its \<open>wristAngle\<close> is 15: the wrist flexion angle is the constant 15, which does not exceed
  the threshold of \<open>getWristScore\<close>, and no twist flag is passed.
\<close>

theorem wrist_score_constant:
  assumes "calculateREBA pose = Some r"
  shows "wrist r = 1 \<and> wristAngle r = 15"
  using calculateREBA_SomeD[OF assms]
  by (simp add: getWristScore_def js_round_def)

text \<open>The standing pose is scored, with wrist score 1 and wrist angle 15.\<close>

theorem wrist_score_constant_witness:
  "\<exists>r. calculateREBA (Some standing) = Some r \<and> wrist r = 1 \<and> wristAngle r = 15"
proof -
  from calculateREBA_returns[OF standing_elems] obtain r where
    r: "calculateREBA (Some standing) = Some r"
    by blast
  with wrist_score_constant[OF r] show ?thesis
    by blast
qed

end
